theory Spec2Isabelle
  imports Complex_Main
begin

section \<open>JavaScript numbers\<close>

text \<open>
  A JavaScript number is a finite value, one of the two infinities, or NaN. Finite
  values are modelled as exact reals: the rounding and the overflow of IEEE doubles
  and the sign of zero are outside the model. The operators below follow the
  language's rules for the special values, which is what the guards of the program
  (\<^verbatim>\<open>Number.isFinite\<close>, \<^verbatim>\<open>||\<close>, \<^verbatim>\<open>Math.max\<close>) look at.
\<close>

datatype jsnum = Fin real | PosInf | NegInf | NaN

fun isFinite :: "jsnum \<Rightarrow> bool" where
  "isFinite (Fin x) = True"
| "isFinite PosInf = False"
| "isFinite NegInf = False"
| "isFinite NaN = False"

text \<open>The infinity (or NaN) with the sign of a real number.\<close>

definition inf_of_sign :: "real \<Rightarrow> jsnum" where
  "inf_of_sign s = (if 0 < s then PosInf else if s < 0 then NegInf else NaN)"

fun jneg :: "jsnum \<Rightarrow> jsnum" where
  "jneg (Fin x) = Fin (- x)"
| "jneg PosInf = NegInf"
| "jneg NegInf = PosInf"
| "jneg NaN = NaN"

fun jadd :: "jsnum \<Rightarrow> jsnum \<Rightarrow> jsnum" where
  "jadd NaN y = NaN"
| "jadd x NaN = NaN"
| "jadd (Fin a) (Fin b) = Fin (a + b)"
| "jadd (Fin a) y = y"
| "jadd x (Fin b) = x"
| "jadd PosInf PosInf = PosInf"
| "jadd NegInf NegInf = NegInf"
| "jadd PosInf NegInf = NaN"
| "jadd NegInf PosInf = NaN"

definition jsub :: "jsnum \<Rightarrow> jsnum \<Rightarrow> jsnum" where
  "jsub x y = jadd x (jneg y)"

fun jmul :: "jsnum \<Rightarrow> jsnum \<Rightarrow> jsnum" where
  "jmul NaN y = NaN"
| "jmul x NaN = NaN"
| "jmul (Fin a) (Fin b) = Fin (a * b)"
| "jmul (Fin a) PosInf = inf_of_sign a"
| "jmul (Fin a) NegInf = inf_of_sign (- a)"
| "jmul PosInf (Fin b) = inf_of_sign b"
| "jmul NegInf (Fin b) = inf_of_sign (- b)"
| "jmul PosInf PosInf = PosInf"
| "jmul NegInf NegInf = PosInf"
| "jmul PosInf NegInf = NegInf"
| "jmul NegInf PosInf = NegInf"

text \<open>Division; a zero divisor is taken as positive zero.\<close>

fun jdiv :: "jsnum \<Rightarrow> jsnum \<Rightarrow> jsnum" where
  "jdiv NaN y = NaN"
| "jdiv x NaN = NaN"
| "jdiv (Fin a) (Fin b) = (if b = 0 then inf_of_sign a else Fin (a / b))"
| "jdiv (Fin a) y = Fin 0"
| "jdiv PosInf (Fin b) = (if b = 0 then PosInf else inf_of_sign b)"
| "jdiv NegInf (Fin b) = (if b = 0 then NegInf else inf_of_sign (- b))"
| "jdiv x y = NaN"

text \<open>\<^verbatim>\<open>x < y\<close> and \<^verbatim>\<open>x <= y\<close> on numbers: false as soon as one side is NaN.\<close>

fun jlt :: "jsnum \<Rightarrow> jsnum \<Rightarrow> bool" where
  "jlt NaN y = False"
| "jlt x NaN = False"
| "jlt (Fin a) (Fin b) = (a < b)"
| "jlt x PosInf = (x \<noteq> PosInf)"
| "jlt NegInf y = (y \<noteq> NegInf)"
| "jlt x y = False"

fun jle :: "jsnum \<Rightarrow> jsnum \<Rightarrow> bool" where
  "jle NaN y = False"
| "jle x NaN = False"
| "jle x y = (\<not> jlt y x)"

text \<open>\<^verbatim>\<open>Math.max(x, y)\<close> and \<^verbatim>\<open>Math.min(x, y)\<close>: NaN if an argument is NaN.\<close>

definition Math_max :: "jsnum \<Rightarrow> jsnum \<Rightarrow> jsnum" where
  "Math_max x y = (if x = NaN \<or> y = NaN then NaN else if jlt x y then y else x)"

definition Math_min :: "jsnum \<Rightarrow> jsnum \<Rightarrow> jsnum" where
  "Math_min x y = (if x = NaN \<or> y = NaN then NaN else if jlt y x then y else x)"

text \<open>\<^verbatim>\<open>Math.round\<close>: the nearest integer, a tie going up.\<close>

fun Math_round :: "jsnum \<Rightarrow> jsnum" where
  "Math_round (Fin x) = Fin (of_int \<lfloor>x + 1 / 2\<rfloor>)"
| "Math_round x = x"

text \<open>The truth value of a number: everything but zero and NaN.\<close>

fun num_truthy :: "jsnum \<Rightarrow> bool" where
  "num_truthy (Fin x) = (x \<noteq> 0)"
| "num_truthy NaN = False"
| "num_truthy x = True"

text \<open>\<^verbatim>\<open>x || 0\<close> on a number.\<close>

definition num_or_zero :: "jsnum \<Rightarrow> jsnum" where
  "num_or_zero x = (if num_truthy x then x else Fin 0)"

section \<open>JavaScript values\<close>

text \<open>
  The values that a parsed JSON document or a form field can hold. An object is the
  list of its own properties in insertion order. The language lists the keys that
  look like array indices first; the model does not, and two equal property lists
  stand for the same object either way. Inherited properties are not modelled, nor is
  the key \<^verbatim>\<open>__proto__\<close>, which an assignment takes for the prototype. Strings are
  lists of 8-bit characters.
\<close>

datatype jsval =
    JUndefined
  | JNull
  | JBool bool
  | JNum jsnum
  | JStr string
  | JArr "jsval list"
  | JObj "(string \<times> jsval) list"

text \<open>Truthiness, as \<^verbatim>\<open>||\<close> and \<^verbatim>\<open>!\<close> see it.\<close>

fun truthy :: "jsval \<Rightarrow> bool" where
  "truthy JUndefined = False"
| "truthy JNull = False"
| "truthy (JBool b) = b"
| "truthy (JNum n) = num_truthy n"
| "truthy (JStr s) = (s \<noteq> [])"
| "truthy (JArr xs) = True"
| "truthy (JObj kvs) = True"

definition js_or :: "jsval \<Rightarrow> jsval \<Rightarrow> jsval" where
  "js_or a b = (if truthy a then a else b)"

text \<open>\<^verbatim>\<open>a ?? b\<close>.\<close>

fun nullish :: "jsval \<Rightarrow> jsval \<Rightarrow> jsval" where
  "nullish JUndefined b = b"
| "nullish JNull b = b"
| "nullish a b = a"

text \<open>Reading an own property of an object; \<^verbatim>\<open>undefined\<close> when it is absent.\<close>

definition get_own :: "(string \<times> jsval) list \<Rightarrow> string \<Rightarrow> jsval" where
  "get_own kvs k = (case map_of kvs k of None \<Rightarrow> JUndefined | Some v \<Rightarrow> v)"

text \<open>
  \<^verbatim>\<open>v?.k\<close> for a property name \<open>k\<close> that no string, array, number or boolean has
  (such as \<^verbatim>\<open>market\<close>): the own property of an object, \<^verbatim>\<open>undefined\<close> otherwise.
\<close>

fun get_opt :: "jsval \<Rightarrow> string \<Rightarrow> jsval" where
  "get_opt (JObj kvs) k = get_own kvs k"
| "get_opt v k = JUndefined"

section \<open>Utilities\<close>

text \<open>
  \<^verbatim>\<open>
  function clamp01(x) {
    if (!Number.isFinite(x)) return 0;
    return Math.max(0, Math.min(1, x));
  }
  function netSell(gross, feeRate) { return gross * (1 - feeRate); }
  function sum(arr) { return arr.reduce((a, b) => a + b, 0); }
  \<close>
\<close>

definition clamp01 :: "jsnum \<Rightarrow> jsnum" where
  "clamp01 x = (if \<not> isFinite x then Fin 0 else Math_max (Fin 0) (Math_min (Fin 1) x))"

definition netSell :: "jsnum \<Rightarrow> jsnum \<Rightarrow> jsnum" where
  "netSell gross feeRate = jmul gross (jsub (Fin 1) feeRate)"

definition sum_js :: "jsnum list \<Rightarrow> jsnum" where
  "sum_js arr = foldl jadd (Fin 0) arr"

subsection \<open>The numeric input normalizer\<close>

text \<open>
  White space of \<^verbatim>\<open>String.prototype.trim\<close> within the 8-bit range: TAB, LF, VT, FF, CR,
  space and the no-break space.
\<close>

definition js_space :: "char \<Rightarrow> bool" where
  "js_space c = (of_char c \<in> {9, 10, 11, 12, 13, 32, 160 :: nat})"

definition trim :: "string \<Rightarrow> string" where
  "trim s = rev (dropWhile js_space (rev (dropWhile js_space s)))"

text \<open>
  \<^verbatim>\<open>
  function toNum(v, fallback = 0) {
    if (typeof v === "number") return Number.isFinite(v) ? v : fallback;
    if (typeof v !== "string") return fallback;
    const t = v.trim();
    if (!t) return fallback;
    if (t === "-" || t === "." || t === "-.") return fallback;
    const n = Number(t);
    return Number.isFinite(n) ? n : fallback;
  }
  \<close>
  The conversion \<^verbatim>\<open>Number(t)\<close> of a string is the language's own; it is the
  parameter \<open>Number\<close>, so that every result below holds whatever it returns.
  A call without the second argument passes \<open>Fin 0\<close>.
\<close>

fun toNum :: "(string \<Rightarrow> jsnum) \<Rightarrow> jsval \<Rightarrow> jsnum \<Rightarrow> jsnum" where
  "toNum Number (JNum v) fallback = (if isFinite v then v else fallback)"
| "toNum Number (JStr v) fallback =
     (let t = trim v in
      if t = [] then fallback
      else if t = ''-'' \<or> t = ''.'' \<or> t = ''-.'' then fallback
      else let n = Number t in if isFinite n then n else fallback)"
| "toNum Number v fallback = fallback"

section \<open>Domain rules\<close>

text \<open>
  \<^verbatim>\<open>
  const SAGE_SHARDS_BY_ENH = { 5: 4, 6: 4, 7: 4, 8: 5, 9: 5, 10: 5,
                               11: 6, 12: 6, 13: 7, 14: 7, 15: 12 };
  const shardsPerDig = SAGE_SHARDS_BY_ENH[s.sageEnhLevel] ?? 0;
  \<close>
\<close>

definition SAGE_SHARDS_BY_ENH :: "(real \<times> real) list" where
  "SAGE_SHARDS_BY_ENH =
     [(5, 4), (6, 4), (7, 4), (8, 5), (9, 5), (10, 5),
      (11, 6), (12, 6), (13, 7), (14, 7), (15, 12)]"

fun shardsPerDig_of :: "jsnum \<Rightarrow> jsnum" where
  "shardsPerDig_of (Fin l) =
     (case map_of SAGE_SHARDS_BY_ENH l of None \<Rightarrow> Fin 0 | Some n \<Rightarrow> Fin n)"
| "shardsPerDig_of l = Fin 0"

record rule =
  prob :: jsnum
  count :: jsnum

text \<open>
  \<^verbatim>\<open>
  function gemExpertRule(level) {
    if (level === 1) return { prob: 0.03, count: 1 };
    if (level === 2) return { prob: 0.07, count: 1 };
    if (level === 3) return { prob: 0.10, count: 2 };
    return { prob: 0, count: 0 };
  }
  function flamingPickRule(level) {
    if (!Number.isFinite(level) || level <= 0) return { prob: 0, ingots: 1 };
    if (level >= 10) return { prob: 0.15, ingots: 1 };
    return { prob: level / 100, ingots: 1 };
  }
  \<close>
  The field \<^verbatim>\<open>ingots\<close> of the second rule is the field \<open>count\<close> of the record.
\<close>

definition gemExpertRule :: "jsnum \<Rightarrow> rule" where
  "gemExpertRule level =
     (if level = Fin 1 then \<lparr>prob = Fin (3 / 100), count = Fin 1\<rparr>
      else if level = Fin 2 then \<lparr>prob = Fin (7 / 100), count = Fin 1\<rparr>
      else if level = Fin 3 then \<lparr>prob = Fin (10 / 100), count = Fin 2\<rparr>
      else \<lparr>prob = Fin 0, count = Fin 0\<rparr>)"

definition flamingPickRule :: "jsnum \<Rightarrow> rule" where
  "flamingPickRule level =
     (if \<not> isFinite level \<or> jle level (Fin 0) then \<lparr>prob = Fin 0, count = Fin 1\<rparr>
      else if jle (Fin 10) level then \<lparr>prob = Fin (15 / 100), count = Fin 1\<rparr>
      else \<lparr>prob = jdiv level (Fin 100), count = Fin 1\<rparr>)"

section \<open>The expected-value breakdown\<close>

record ev_input =
  staminaPerDig :: jsnum
  shardsPerDig :: jsnum
  shardsPerIngot :: jsnum
  ingotGrossPrice :: jsnum
  gemDropProb :: jsnum
  gemDropCount :: jsnum
  gemGrossPrice :: jsnum
  flamingIngotProb :: jsnum
  sellFeeRate :: jsnum

record ev_breakdown =
  pFlame :: jsnum
  out_staminaPerDig :: jsnum
  out_shardsPerIngot :: jsnum
  ingotNet :: jsnum
  gemNet :: jsnum
  ingotFromShardsPerDig :: jsnum
  ingotFromShardsValuePerDig :: jsnum
  ingotFromFlamePerDig :: jsnum
  ingotFromFlameValuePerDig :: jsnum
  gemValuePerDig :: jsnum
  totalPerDig :: jsnum
  totalPerStamina :: jsnum

text \<open>
  \<^verbatim>\<open>
  const spd = Math.max(1, staminaPerDig);
  const spi = Math.max(1, shardsPerIngot);
  const p = clamp01(flamingIngotProb);
  const ingotNet = netSell(Math.max(0, ingotGrossPrice), sellFeeRate);
  const gemNet = netSell(Math.max(0, gemGrossPrice), sellFeeRate);
  const ingotFromShardsPerDig = (1 - p) * (Math.max(0, shardsPerDig) / spi);
  const ingotFromShardsValuePerDig = ingotFromShardsPerDig * ingotNet;
  const ingotFromFlamePerDig = p * 1;
  const ingotFromFlameValuePerDig = ingotFromFlamePerDig * ingotNet;
  const gemValuePerDig = clamp01(gemDropProb) * Math.max(0, gemDropCount) * gemNet;
  const totalPerDig = ingotFromShardsValuePerDig + ingotFromFlameValuePerDig + gemValuePerDig;
  const totalPerStamina = totalPerDig / spd;
  \<close>
  The output fields \<^verbatim>\<open>staminaPerDig\<close> and \<^verbatim>\<open>shardsPerIngot\<close> carry the prefix
  \<open>out_\<close>, the input record having fields of the same names.
\<close>

definition miningEVBreakdown :: "ev_input \<Rightarrow> ev_breakdown" where
  "miningEVBreakdown i =
     (let spd = Math_max (Fin 1) (staminaPerDig i);
          spi = Math_max (Fin 1) (shardsPerIngot i);
          p = clamp01 (flamingIngotProb i);
          ingotNet' = netSell (Math_max (Fin 0) (ingotGrossPrice i)) (sellFeeRate i);
          gemNet' = netSell (Math_max (Fin 0) (gemGrossPrice i)) (sellFeeRate i);
          fromShards = jmul (jsub (Fin 1) p) (jdiv (Math_max (Fin 0) (shardsPerDig i)) spi);
          fromShardsValue = jmul fromShards ingotNet';
          fromFlame = jmul p (Fin 1);
          fromFlameValue = jmul fromFlame ingotNet';
          gemValue = jmul (jmul (clamp01 (gemDropProb i)) (Math_max (Fin 0) (gemDropCount i))) gemNet';
          total = jadd (jadd fromShardsValue fromFlameValue) gemValue
      in \<lparr>pFlame = p,
          out_staminaPerDig = spd,
          out_shardsPerIngot = spi,
          ingotNet = ingotNet',
          gemNet = gemNet',
          ingotFromShardsPerDig = fromShards,
          ingotFromShardsValuePerDig = fromShardsValue,
          ingotFromFlamePerDig = fromFlame,
          ingotFromFlameValuePerDig = fromFlameValue,
          gemValuePerDig = gemValue,
          totalPerDig = total,
          totalPerStamina = jdiv total spd\<rparr>)"

section \<open>Crafting profit helpers\<close>

text \<open>
  \<^verbatim>\<open>
  function unitCostByMode({ mode, marketPrice, feeRate }) {
    if (mode === "owned") return 0;
    if (mode === "buy") return Math.max(0, marketPrice);
    return netSell(Math.max(0, marketPrice), feeRate);
  }
  \<close>
\<close>

definition unitCostByMode :: "jsval \<Rightarrow> jsnum \<Rightarrow> jsnum \<Rightarrow> jsnum" where
  "unitCostByMode mode marketPrice feeRate =
     (if mode = JStr ''owned'' then Fin 0
      else if mode = JStr ''buy'' then Math_max (Fin 0) marketPrice
      else netSell (Math_max (Fin 0) marketPrice) feeRate)"

record cost_entry =
  key :: string
  qty :: jsnum
  unitCost :: jsnum
  mode :: jsval
  market :: jsnum

record craft_result =
  revenue :: jsnum
  totalCost :: jsnum
  profit :: jsnum

text \<open>
  \<^verbatim>\<open>
  function craftProfit({ productGrossSellPrice, feeRate, costs }) {
    const revenue = netSell(Math.max(0, productGrossSellPrice), feeRate);
    const totalCost = costs.reduce((acc, c) => acc + (c.unitCost || 0) * (c.qty || 0), 0);
    return { revenue, totalCost, profit: revenue - totalCost };
  }
  \<close>
\<close>

definition craftProfit :: "jsnum \<Rightarrow> jsnum \<Rightarrow> cost_entry list \<Rightarrow> craft_result" where
  "craftProfit productGrossSellPrice feeRate costs =
     (let revenue' = netSell (Math_max (Fin 0) productGrossSellPrice) feeRate;
          totalCost' = foldl (\<lambda>acc c. jadd acc (jmul (num_or_zero (unitCost c)) (num_or_zero (qty c))))
                         (Fin 0) costs
      in \<lparr>revenue = revenue', totalCost = totalCost', profit = jsub revenue' totalCost'\<rparr>)"

section \<open>The comparison of crafting with selling the materials\<close>

text \<open>
  The page reads the supply modes \<^verbatim>\<open>s.modes\<close>, the prices \<^verbatim>\<open>s.prices\<close> and a recipe
  from the state; all three are objects, a recipe mapping each key to a number.
  \<^verbatim>\<open>
  const mode = s.modes[k] || "owned";
  const market = toNum(s.prices[k]?.market ?? 0);
  \<close>
\<close>

definition mode_of :: "(string \<times> jsval) list \<Rightarrow> string \<Rightarrow> jsval" where
  "mode_of modes k = js_or (get_own modes k) (JStr ''owned'')"

definition market_of :: "(string \<Rightarrow> jsnum) \<Rightarrow> (string \<times> jsval) list \<Rightarrow> string \<Rightarrow> jsnum" where
  "market_of Number prices k =
     toNum Number (nullish (get_opt (get_own prices k) ''market'') (JNum (Fin 0))) (Fin 0)"

text \<open>
  \<^verbatim>\<open>
  const sellIndivNet = (recipe) => {
    return sum(
      Object.entries(recipe).map(([k, qty]) => {
        const mode = s.modes[k] || "owned";
        if (mode === "buy") return 0;
        const market = toNum(s.prices[k]?.market ?? 0);
        return (qty || 0) * netSell(market, feeRate);
      })
    );
  };
  \<close>
\<close>

definition sellIndivNet ::
  "(string \<Rightarrow> jsnum) \<Rightarrow> (string \<times> jsval) list \<Rightarrow> (string \<times> jsval) list \<Rightarrow> jsnum \<Rightarrow>
   (string \<times> jsnum) list \<Rightarrow> jsnum" where
  "sellIndivNet Number modes prices feeRate recipe =
     sum_js (map (\<lambda>(k, qty').
                if mode_of modes k = JStr ''buy'' then Fin 0
                else jmul (num_or_zero qty') (netSell (market_of Number prices k) feeRate))
              recipe)"

record craft_row = craft_result +
  costs :: "cost_entry list"
  buyList :: "(string \<times> jsnum) list"

text \<open>
  \<^verbatim>\<open>
  const craft = (productGrossPrice, recipe) => {
    const costs = Object.entries(recipe).map(([k, qty]) => {
      const mode = s.modes[k] || "owned";
      const market = toNum(s.prices[k]?.market ?? 0);
      const unitCost = unitCostByMode({ mode, marketPrice: market, feeRate });
      return { key: k, qty: qty || 0, unitCost, mode, market };
    });
    const buyList = costs.filter((c) => c.mode === "buy").map((c) => ({ key: c.key, qty: c.qty || 0 }));
    return { ...craftProfit({ productGrossSellPrice: toNum(productGrossPrice), feeRate, costs }), costs, buyList };
  };
  \<close>
\<close>

definition craft_costs ::
  "(string \<Rightarrow> jsnum) \<Rightarrow> (string \<times> jsval) list \<Rightarrow> (string \<times> jsval) list \<Rightarrow> jsnum \<Rightarrow>
   (string \<times> jsnum) list \<Rightarrow> cost_entry list" where
  "craft_costs Number modes prices feeRate recipe =
     map (\<lambda>(k, qty').
            let mode' = mode_of modes k;
                market' = market_of Number prices k
            in \<lparr>key = k, qty = num_or_zero qty',
                unitCost = unitCostByMode mode' market' feeRate,
                mode = mode', market = market'\<rparr>)
         recipe"

definition craft ::
  "(string \<Rightarrow> jsnum) \<Rightarrow> (string \<times> jsval) list \<Rightarrow> (string \<times> jsval) list \<Rightarrow> jsnum \<Rightarrow>
   jsval \<Rightarrow> (string \<times> jsnum) list \<Rightarrow> craft_row" where
  "craft Number modes prices feeRate productGrossPrice recipe =
     (let costs' = craft_costs Number modes prices feeRate recipe;
          buyList' = map (\<lambda>c. (key c, num_or_zero (qty c)))
                       (filter (\<lambda>c. mode c = JStr ''buy'') costs');
          r = craftProfit (toNum Number productGrossPrice (Fin 0)) feeRate costs'
      in \<lparr>revenue = revenue r, totalCost = totalCost r, profit = profit r,
          costs = costs', buyList = buyList'\<rparr>)"

record compare_row = craft_row +
  row_sellIndivNet :: jsnum
  deltaRevenueVsIndiv :: jsnum

text \<open>
  One entry of \<^verbatim>\<open>compare\<close>:
  \<^verbatim>\<open>
  const ability = craft(s.abilityGrossSell, s.recipes.ability);
  const abilitySellIndiv = sellIndivNet(s.recipes.ability);
  const deltaByRounded = (profit, sellIndivNet) => Math.round(profit) - Math.round(sellIndivNet);
  ability: { ...ability, sellIndivNet: abilitySellIndiv,
             deltaRevenueVsIndiv: deltaByRounded(ability.profit, abilitySellIndiv) }
  \<close>
\<close>

definition deltaByRounded :: "jsnum \<Rightarrow> jsnum \<Rightarrow> jsnum" where
  "deltaByRounded profit' sellIndiv = jsub (Math_round profit') (Math_round sellIndiv)"

definition compare ::
  "(string \<Rightarrow> jsnum) \<Rightarrow> (string \<times> jsval) list \<Rightarrow> (string \<times> jsval) list \<Rightarrow> jsnum \<Rightarrow>
   jsval \<Rightarrow> (string \<times> jsnum) list \<Rightarrow> compare_row" where
  "compare Number modes prices feeRate productGrossPrice recipe =
     (let c = craft Number modes prices feeRate productGrossPrice recipe;
          indiv = sellIndivNet Number modes prices feeRate recipe
      in \<lparr>revenue = revenue c, totalCost = totalCost c, profit = profit c,
          costs = costs c, buyList = buyList c,
          row_sellIndivNet = indiv,
          deltaRevenueVsIndiv = deltaByRounded (profit c) indiv\<rparr>)"

text \<open>
  The last column of the table:
  \<^verbatim>\<open>x.profit - x.sellIndivNet >= 0 ? (crafting pays) : (selling the materials pays)\<close>
\<close>

definition craft_recommended :: "compare_row \<Rightarrow> bool" where
  "craft_recommended x = jle (Fin 0) (jsub (profit x) (row_sellIndivNet x))"

text \<open>
  The fee rate handed to both pages:
  \<^verbatim>\<open>
  const feeRate = useMemo(() => {
    const v = toNum(s.feePct, 0) / 100;
    return Math.max(0, Math.min(0.5, v));
  }, [s.feePct]);
  \<close>
  The argument is the value of the field \<^verbatim>\<open>feePct\<close> of the state.
\<close>

definition feeRate_of :: "(string \<Rightarrow> jsnum) \<Rightarrow> jsval \<Rightarrow> jsnum" where
  "feeRate_of Number feePct =
     (let v = jdiv (toNum Number feePct (Fin 0)) (Fin 100)
      in Math_max (Fin 0) (Math_min (Fin (1 / 2)) v))"

section \<open>State migration\<close>

text \<open>
  \<^verbatim>\<open>
  function isPlainObject(x) {
    return x != null && typeof x === "object" && !Array.isArray(x);
  }
  \<close>
\<close>

fun isPlainObject :: "jsval \<Rightarrow> bool" where
  "isPlainObject (JObj kvs) = True"
| "isPlainObject v = False"

text \<open>
  \<^verbatim>\<open>out[k] = v\<close> on an object: the property keeps its place when it exists and is added
  at the end otherwise.
\<close>

fun set_own :: "(string \<times> jsval) list \<Rightarrow> string \<Rightarrow> jsval \<Rightarrow> (string \<times> jsval) list" where
  "set_own [] k v = [(k, v)]"
| "set_own ((k', v') # kvs) k v =
     (if k' = k then (k, v) # kvs else (k', v') # set_own kvs k v)"

text \<open>
  \<^verbatim>\<open>
  function deepMerge(base, patch) {
    if (!isPlainObject(base) || !isPlainObject(patch)) return patch ?? base;
    const out = { ...base };
    for (const [k, v] of Object.entries(patch)) {
      if (isPlainObject(out[k]) && isPlainObject(v)) out[k] = deepMerge(out[k], v);
      else out[k] = v;
    }
    return out;
  }
  \<close>
  \<open>merge_entries out patch\<close> is the loop, \<open>out\<close> being the object under construction.
\<close>

fun deepMerge :: "jsval \<Rightarrow> jsval \<Rightarrow> jsval"
  and merge_entries :: "(string \<times> jsval) list \<Rightarrow> (string \<times> jsval) list \<Rightarrow> (string \<times> jsval) list" where
  "deepMerge (JObj base) (JObj patch) = JObj (merge_entries base patch)"
| "deepMerge base patch = nullish patch base"
| "merge_entries out [] = out"
| "merge_entries out ((k, v) # rest) =
     merge_entries
       (set_own out k
          (if isPlainObject (get_own out k) \<and> isPlainObject v
           then deepMerge (get_own out k) v else v))
       rest"

text \<open>The decimal name of an array index.\<close>

fun show_nat :: "nat \<Rightarrow> string" where
  "show_nat n =
     (if n < 10 then [char_of (48 + n)]
      else show_nat (n div 10) @ [char_of (48 + n mod 10)])"

text \<open>
  The own enumerable properties that \<^verbatim>\<open>Object.entries(x)\<close> and the spread \<^verbatim>\<open>{...x}\<close>
  see: those of an object, the elements of an array and the characters of a string
  under their indices, and none for any other value.
\<close>

fun own_entries :: "jsval \<Rightarrow> (string \<times> jsval) list" where
  "own_entries (JObj kvs) = kvs"
| "own_entries (JArr xs) = zip (map show_nat [0..<length xs]) xs"
| "own_entries (JStr s) = zip (map show_nat [0..<length s]) (map (\<lambda>c. JStr [c]) s)"
| "own_entries v = []"

text \<open>\<^verbatim>\<open>{ k1: v1, ..., ...x }\<close>: the properties of \<open>x\<close> are assigned in turn.\<close>

definition spread_into :: "(string \<times> jsval) list \<Rightarrow> jsval \<Rightarrow> (string \<times> jsval) list" where
  "spread_into lit x = foldl (\<lambda>acc (k, v). set_own acc k v) lit (own_entries x)"

text \<open>\<^verbatim>\<open>{ ...s, k: v }\<close>.\<close>

definition with_prop :: "jsval \<Rightarrow> string \<Rightarrow> jsval \<Rightarrow> jsval" where
  "with_prop s k v = JObj (set_own (spread_into [] s) k v)"

text \<open>
  \<^verbatim>\<open>String(x)\<close>. The text of a number is the language's own and is the parameter
  \<open>numToString\<close>. An array joins the texts of its elements with commas, \<^verbatim>\<open>null\<close> and
  \<^verbatim>\<open>undefined\<close> elements giving the empty text. An object answers
  \<^verbatim>\<open>[object Object]\<close> through the inherited \<^verbatim>\<open>toString\<close>; when it has an own property of
  that name, which in a parsed document is never a function, the conversion
  raises a \<^verbatim>\<open>TypeError\<close>: the result is \<open>None\<close>.
\<close>

fun intersperse_commas :: "string list \<Rightarrow> string" where
  "intersperse_commas [] = []"
| "intersperse_commas [x] = x"
| "intersperse_commas (x # y # zs) = x @ '','' @ intersperse_commas (y # zs)"

fun js_String :: "(jsnum \<Rightarrow> string) \<Rightarrow> jsval \<Rightarrow> string option"
  and join_texts :: "(jsnum \<Rightarrow> string) \<Rightarrow> jsval list \<Rightarrow> string list option" where
  "js_String numToString JUndefined = Some ''undefined''"
| "js_String numToString JNull = Some ''null''"
| "js_String numToString (JBool b) = Some (if b then ''true'' else ''false'')"
| "js_String numToString (JNum n) = Some (numToString n)"
| "js_String numToString (JStr s) = Some s"
| "js_String numToString (JArr xs) = map_option intersperse_commas (join_texts numToString xs)"
| "js_String numToString (JObj kvs) =
     (if ''toString'' \<in> fst ` set kvs then None else Some ''[object Object]'')"
| "join_texts numToString [] = Some []"
| "join_texts numToString (x # xs) =
     (case (if x = JUndefined \<or> x = JNull then Some [] else js_String numToString x) of
        None \<Rightarrow> None
      | Some t \<Rightarrow> map_option ((#) t) (join_texts numToString xs))"

text \<open>
  The second transform of the migration:
  \<^verbatim>\<open>
  const normalized = {};
  for (const [k, v] of Object.entries(oldPrices)) {
    if (isPlainObject(v)) {
      const market = v.market ?? v.grossSell ?? v.buy ?? 0;
      normalized[k] = { market: String(market ?? "") };
    } else {
      normalized[k] = { market: String(v ?? "") };
    }
  }
  \<close>
\<close>

fun normalize_prices ::
  "(jsnum \<Rightarrow> string) \<Rightarrow> (string \<times> jsval) list \<Rightarrow> (string \<times> jsval) list \<Rightarrow>
   (string \<times> jsval) list option" where
  "normalize_prices numToString normalized [] = Some normalized"
| "normalize_prices numToString normalized ((k, v) # rest) =
     (case (if isPlainObject v
            then (let market' = nullish (nullish (nullish (get_opt v ''market'') (get_opt v ''grossSell''))
                                           (get_opt v ''buy'')) (JNum (Fin 0))
                  in js_String numToString (nullish market' (JStr [])))
            else js_String numToString (nullish v (JStr []))) of
        None \<Rightarrow> None
      | Some t \<Rightarrow>
          normalize_prices numToString
            (set_own normalized k (JObj [(''market'', JStr t)])) rest)"

text \<open>
  \<^verbatim>\<open>s.schemaVersion = v\<close>. The target is always an object in \<open>migrateState\<close>.
\<close>

fun assign :: "jsval \<Rightarrow> string \<Rightarrow> jsval \<Rightarrow> jsval" where
  "assign (JObj kvs) k v = JObj (set_own kvs k v)"
| "assign s k v = s"

text \<open>
  \<^verbatim>\<open>
  const incomingVer = Number.isFinite(incoming.schemaVersion) ? incoming.schemaVersion : 0;
  \<close>
\<close>

fun version_of :: "jsval \<Rightarrow> jsnum" where
  "version_of (JNum n) = (if isFinite n then n else Fin 0)"
| "version_of v = Fin 0"

text \<open>
  \<^verbatim>\<open>
  function migrateState(raw, defaults) {
    const incoming = isPlainObject(raw) ? raw : {};
    const incomingVer = Number.isFinite(incoming.schemaVersion) ? incoming.schemaVersion : 0;
    let s = deepMerge(defaults, incoming);
    if (incomingVer < 1) {
      s = { ...s,
            potionRowDetailsOpen: { p100: false, p300: false, p500: false, p700: false,
                                    ...(s.potionRowDetailsOpen || {}) } };
    }
    if (incomingVer < 2) {
      const oldPrices = s.prices || {};
      const normalized = {};
      for (...) { ... }
      s = { ...s, prices: deepMerge(defaults.prices, normalized) };
    }
    if (incomingVer < 3) {
      s = { ...s, feedbacks: { nextId: 1, items: [], ...(s.feedbacks || {}) } };
    }
    if (incomingVer < 4) {
      s = { ...s, adminMode: false };
    }
    s.schemaVersion = defaults.schemaVersion;
    return s;
  }
  \<close>
  The default document is an object, given by its properties. The result is \<open>None\<close>
  when the call raises.
\<close>

definition migrate_v1 :: "jsval \<Rightarrow> jsval" where
  "migrate_v1 s =
     with_prop s ''potionRowDetailsOpen''
       (JObj (spread_into
                [(''p100'', JBool False), (''p300'', JBool False),
                 (''p500'', JBool False), (''p700'', JBool False)]
                (js_or (get_opt s ''potionRowDetailsOpen'') (JObj []))))"

definition migrate_v2 ::
  "(jsnum \<Rightarrow> string) \<Rightarrow> (string \<times> jsval) list \<Rightarrow> jsval \<Rightarrow> jsval option" where
  "migrate_v2 numToString defaults s =
     (let oldPrices = js_or (get_opt s ''prices'') (JObj [])
      in case normalize_prices numToString [] (own_entries oldPrices) of
           None \<Rightarrow> None
         | Some normalized \<Rightarrow>
             Some (with_prop s ''prices''
                     (deepMerge (get_own defaults ''prices'') (JObj normalized))))"

definition migrate_v3 :: "jsval \<Rightarrow> jsval" where
  "migrate_v3 s =
     with_prop s ''feedbacks''
       (JObj (spread_into
                [(''nextId'', JNum (Fin 1)), (''items'', JArr [])]
                (js_or (get_opt s ''feedbacks'') (JObj []))))"

definition migrate_v4 :: "jsval \<Rightarrow> jsval" where
  "migrate_v4 s = with_prop s ''adminMode'' (JBool False)"

definition migrateState ::
  "(jsnum \<Rightarrow> string) \<Rightarrow> jsval \<Rightarrow> (string \<times> jsval) list \<Rightarrow> jsval option" where
  "migrateState numToString raw defaults =
     (let incoming = (if isPlainObject raw then raw else JObj []);
          incomingVer = version_of (get_opt incoming ''schemaVersion'');
          s0 = deepMerge (JObj defaults) incoming;
          s1 = (if jlt incomingVer (Fin 1) then migrate_v1 s0 else s0)
      in case (if jlt incomingVer (Fin 2) then migrate_v2 numToString defaults s1 else Some s1) of
           None \<Rightarrow> None
         | Some s2 \<Rightarrow>
             (let s3 = (if jlt incomingVer (Fin 3) then migrate_v3 s2 else s2);
                  s4 = (if jlt incomingVer (Fin 4) then migrate_v4 s3 else s3)
              in Some (assign s4 ''schemaVersion'' (get_own defaults ''schemaVersion''))))"

text \<open>The default document of the application.\<close>

definition defaultState :: "(string \<times> jsval) list" where
  "defaultState =
     [(''schemaVersion'', JNum (Fin 4)),
      (''activeMenu'', JStr ''potion''),
      (''feePct'', JStr ''5''),
      (''themeMode'', JStr ''light''),
      (''sageEnhLevel'', JNum (Fin 15)),
      (''gemExpertLevel'', JNum (Fin 3)),
      (''flamingPickLevel'', JNum (Fin 0)),
      (''staminaPerDig'', JStr ''10''),
      (''shardsPerIngot'', JStr ''16''),
      (''ingotGrossPrice'', JStr ''6000''),
      (''gemGrossPrice'', JStr ''12000''),
      (''potionPrices'', JObj [(''p100'', JStr ''14000''), (''p300'', JStr ''70000''),
                               (''p500'', JStr ''160000''), (''p700'', JStr ''210000'')]),
      (''potionRowDetailsOpen'', JObj [(''p100'', JBool False), (''p300'', JBool False),
                                       (''p500'', JBool False), (''p700'', JBool False)]),
      (''abilityGrossSell'', JStr ''18000''),
      (''lifeGrossSell'', JObj [(''low'', JStr ''9000''), (''mid'', JStr ''30000''),
                                (''high'', JStr ''60000'')]),
      (''prices'', JObj [(''ingot'', JObj [(''market'', JStr ''6000'')]),
                         (''stone'', JObj [(''market'', JStr ''773'')]),
                         (''deepCobble'', JObj [(''market'', JStr ''281'')]),
                         (''redstone'', JObj [(''market'', JStr ''97'')]),
                         (''copper'', JObj [(''market'', JStr ''100'')]),
                         (''diamond'', JObj [(''market'', JStr ''2900'')]),
                         (''iron'', JObj [(''market'', JStr ''700'')]),
                         (''lapis'', JObj [(''market'', JStr ''100'')]),
                         (''gold'', JObj [(''market'', JStr ''570'')]),
                         (''amethyst'', JObj [(''market'', JStr ''78'')])]),
      (''modes'', JObj [(''ingot'', JStr ''opportunity''), (''stone'', JStr ''owned''),
                        (''deepCobble'', JStr ''owned''), (''redstone'', JStr ''owned''),
                        (''copper'', JStr ''owned''), (''diamond'', JStr ''buy''),
                        (''iron'', JStr ''owned''), (''lapis'', JStr ''owned''),
                        (''gold'', JStr ''owned''), (''amethyst'', JStr ''owned'')]),
      (''recipes'',
         JObj [(''ability'', JObj [(''ingot'', JNum (Fin 3))]),
               (''low'', JObj [(''ingot'', JNum (Fin 1)), (''stone'', JNum (Fin 2)),
                               (''redstone'', JNum (Fin 3)), (''copper'', JNum (Fin 8))]),
               (''mid'', JObj [(''ingot'', JNum (Fin 2)), (''deepCobble'', JNum (Fin 2)),
                               (''diamond'', JNum (Fin 3)), (''iron'', JNum (Fin 5)),
                               (''lapis'', JNum (Fin 5))]),
               (''high'', JObj [(''ingot'', JNum (Fin 3)), (''diamond'', JNum (Fin 5)),
                                (''gold'', JNum (Fin 7)), (''iron'', JNum (Fin 7)),
                                (''amethyst'', JNum (Fin 20)), (''copper'', JNum (Fin 30))])]),
      (''feedbacks'', JObj [(''nextId'', JNum (Fin 1)), (''items'', JArr [])]),
      (''adminMode'', JBool False)]"


section \<open>Notions used in the statements\<close>

text \<open>The real value of a finite number.\<close>

fun the_fin :: "jsnum \<Rightarrow> real" where
  "the_fin (Fin x) = x"
| "the_fin x = 0"

text \<open>
  Two stand-ins for the language's conversions, for the instances below in which no
  string is converted to a number and no number to a string.
\<close>

definition Number_none :: "string \<Rightarrow> jsnum" where
  "Number_none t = NaN"

definition numToString_none :: "jsnum \<Rightarrow> string" where
  "numToString_none n = ''NaN''"

text \<open>
  The mining scenario: enhancement level 15, fire-skill level 10, stamina 10 per
  action, 16 shards per ingot, an ingot price of 6000 and a fee of 5 percent; the
  three gem inputs are left open.
\<close>

definition ev_scenario :: "jsnum \<Rightarrow> jsnum \<Rightarrow> jsnum \<Rightarrow> ev_input" where
  "ev_scenario gp gc gg =
     \<lparr>staminaPerDig = Fin 10, shardsPerDig = shardsPerDig_of (Fin 15), shardsPerIngot = Fin 16,
      ingotGrossPrice = Fin 6000, gemDropProb = gp, gemDropCount = gc, gemGrossPrice = gg,
      flamingIngotProb = prob (flamingPickRule (Fin 10)), sellFeeRate = Fin (5 / 100)\<rparr>"

text \<open>
  The crafting scenario: a recipe of 3 units of one resource \<open>k\<close> with a market price of
  6000 and the mode \<^verbatim>\<open>opportunity\<close>, a fee of 5 percent, a product price of 18000.
\<close>

definition craft_scenario :: "(string \<Rightarrow> jsnum) \<Rightarrow> string \<Rightarrow> compare_row" where
  "craft_scenario Number k =
     compare Number [(k, JStr ''opportunity'')] [(k, JObj [(''market'', JNum (Fin 6000))])]
       (Fin (5 / 100)) (JNum (Fin 18000)) [(k, Fin 3)]"

text \<open>An input with half a shard per ingot, below the floor of 1.\<close>

definition ev_half_unit :: ev_input where
  "ev_half_unit =
     \<lparr>staminaPerDig = Fin 10, shardsPerDig = Fin 12, shardsPerIngot = Fin (1 / 2),
      ingotGrossPrice = Fin 6000, gemDropProb = Fin 0, gemDropCount = Fin 0, gemGrossPrice = Fin 0,
      flamingIngotProb = Fin 0, sellFeeRate = Fin (5 / 100)\<rparr>"

section \<open>Notions used for the migration\<close>

text \<open>The value that the merge loop stores under a key of the patch.\<close>

definition merged_value :: "jsval \<Rightarrow> jsval \<Rightarrow> jsval" where
  "merged_value bv v = (if isPlainObject bv \<and> isPlainObject v then deepMerge bv v else v)"

text \<open>
  An object has each of its keys once. The property lists of a value and of the
  objects nested in its objects are lists of distinct keys.
\<close>

fun keys_distinct :: "jsval \<Rightarrow> bool" where
  "keys_distinct (JObj kvs) = (distinct (map fst kvs) \<and> list_all (\<lambda>kv. keys_distinct (snd kv)) kvs)"
| "keys_distinct v = True"

text \<open>A document that merging into the default document \<open>d\<close> leaves as it is.\<close>

definition absorbs :: "(string \<times> jsval) list \<Rightarrow> jsval \<Rightarrow> bool" where
  "absorbs d s = (case s of JObj l \<Rightarrow> distinct (map fst l) \<and> merge_entries d l = l | _ \<Rightarrow> False)"


text \<open>No object inside the value has an own property named \<^verbatim>\<open>toString\<close>.\<close>

fun no_toString :: "jsval \<Rightarrow> bool" where
  "no_toString (JObj kvs) = (''toString'' \<notin> fst ` set kvs \<and> list_all (\<lambda>kv. no_toString (snd kv)) kvs)"
| "no_toString (JArr xs) = list_all no_toString xs"
| "no_toString v = True"

text \<open>Reading along a path of property names, in a value and in a result.\<close>

definition get_path :: "jsval \<Rightarrow> string list \<Rightarrow> jsval" where
  "get_path v ks = foldl get_opt v ks"

fun result_path :: "jsval option \<Rightarrow> string list \<Rightarrow> jsval option" where
  "result_path None ks = None"
| "result_path (Some m) ks = Some (get_path m ks)"

text \<open>
  A stored document without a version, with prices in the old shapes, a partial
  feedback container and the administrator flag set.
\<close>

definition legacy_document :: jsval where
  "legacy_document =
     JObj [(''feePct'', JStr ''7''),
           (''prices'', JObj [(''ingot'', JObj [(''grossSell'', JStr ''6100''), (''buy'', JStr ''6500'')]),
                              (''coal'', JStr ''12'')]),
           (''feedbacks'', JObj [(''nextId'', JNum (Fin 3))]),
           (''adminMode'', JBool True)]"




text \<open>
  \<open>fields_kept d r m\<close>: the fields of the default value \<open>d\<close> are kept in \<open>m\<close>, the raw
  value at the same place being \<open>r\<close>. Where \<open>d\<close> is an object and \<open>m\<close> is an object,
  every field of \<open>d\<close> is present in \<open>m\<close> with a value other than \<^verbatim>\<open>undefined\<close>, and
  the same holds of the two values of the field, at every depth. Where \<open>d\<close> is an
  object and \<open>m\<close> is not, \<open>m\<close> is the raw value itself, which is not an object: the
  stored scalar, \<^verbatim>\<open>null\<close> or array has won over the default object.
\<close>

fun fields_kept :: "jsval \<Rightarrow> jsval \<Rightarrow> jsval \<Rightarrow> bool" where
  "fields_kept (JObj dl) r (JObj ml) =
     list_all (\<lambda>kv. get_own ml (fst kv) \<noteq> JUndefined \<and>
                     fields_kept (snd kv) (get_opt r (fst kv)) (get_own ml (fst kv))) dl"
| "fields_kept (JObj dl) r m = (\<not> isPlainObject r \<and> m = r)"
| "fields_kept d r m = True"

section \<open>Arithmetic on finite numbers\<close>

lemma Math_max_Fin [simp]: "Math_max (Fin a) (Fin b) = Fin (max a b)"
  by (simp add: Math_max_def max_def)

lemma Math_min_Fin [simp]: "Math_min (Fin a) (Fin b) = Fin (min a b)"
  by (simp add: Math_min_def min_def)

lemma jsub_Fin [simp]: "jsub (Fin a) (Fin b) = Fin (a - b)"
  by (simp add: jsub_def)

lemma clamp01_Fin [simp]: "clamp01 (Fin a) = Fin (max 0 (min 1 a))"
  by (simp add: clamp01_def)

lemma netSell_Fin [simp]: "netSell (Fin g) (Fin f) = Fin (g * (1 - f))"
  by (simp add: netSell_def)

lemma num_or_zero_Fin [simp]: "num_or_zero (Fin q) = Fin q"
  by (simp add: num_or_zero_def)

lemma clamp01_cases:
  obtains p where "clamp01 x = Fin p" and "0 \<le> p" and "p \<le> 1"
  by (cases x) (auto simp: clamp01_def)

lemma isFinite_iff: "isFinite x \<longleftrightarrow> (\<exists>r. x = Fin r)"
  by (cases x) auto

lemma toNum_finite: "isFinite fb \<Longrightarrow> isFinite (toNum Number v fb)"
  by (cases v) (auto simp: Let_def)

lemma foldl_jadd_Fin: "foldl jadd (Fin a) (map Fin xs) = Fin (a + sum_list xs)"
  by (induction xs arbitrary: a) (simp_all add: add.assoc)

lemma market_of_finite: "\<exists>r. market_of Number prices k = Fin r"
proof -
  have "isFinite (market_of Number prices k)"
    unfolding market_of_def by (rule toNum_finite) simp
  then show ?thesis by (simp add: isFinite_iff)
qed

lemma sell_entry_Fin:
  "jmul (Fin q) (netSell (market_of Number prices k) (Fin f)) =
     Fin (q * the_fin (market_of Number prices k) * (1 - f))"
proof -
  obtain r where r: "market_of Number prices k = Fin r"
    using market_of_finite by blast
  show ?thesis by (simp add: r)
qed

lemma ev_scenario_simps:
  "staminaPerDig (ev_scenario gp gc gg) = Fin 10"
  "shardsPerDig (ev_scenario gp gc gg) = Fin 12"
  "shardsPerIngot (ev_scenario gp gc gg) = Fin 16"
  "ingotGrossPrice (ev_scenario gp gc gg) = Fin 6000"
  "gemDropProb (ev_scenario gp gc gg) = gp"
  "gemDropCount (ev_scenario gp gc gg) = gc"
  "gemGrossPrice (ev_scenario gp gc gg) = gg"
  "flamingIngotProb (ev_scenario gp gc gg) = Fin (15 / 100)"
  "sellFeeRate (ev_scenario gp gc gg) = Fin (5 / 100)"
  by (simp_all add: ev_scenario_def SAGE_SHARDS_BY_ENH_def flamingPickRule_def)

section \<open>The expected-value breakdown: results\<close>

text \<open>
  C1 (as amended). In the scenario of enhancement level 15 (12 shards per action from
  the table), fire-skill level 10, stamina 10, 16 shards per ingot, an ingot price of
  6000 and a fee rate of 0.05, the breakdown has a normal-path yield of 0.6375 ingots
  per action, a replacement-path yield of 0.15, a net ingot price of 5700, and the
  two ingot values per action add up to 0.7875 times 5700, which is 4488.75.
\<close>

theorem ev_scenario_values:
  "ingotFromShardsPerDig (miningEVBreakdown (ev_scenario gp gc gg)) = Fin (6375 / 10000) \<and>
   ingotFromFlamePerDig (miningEVBreakdown (ev_scenario gp gc gg)) = Fin (15 / 100) \<and>
   ingotNet (miningEVBreakdown (ev_scenario gp gc gg)) = Fin 5700 \<and>
   jadd (ingotFromShardsValuePerDig (miningEVBreakdown (ev_scenario gp gc gg)))
        (ingotFromFlameValuePerDig (miningEVBreakdown (ev_scenario gp gc gg))) = Fin (448875 / 100)"
  by (simp add: miningEVBreakdown_def Let_def ev_scenario_simps)

theorem ev_scenario_values_witness:
  "ingotFromShardsPerDig (miningEVBreakdown (ev_scenario (Fin 0) (Fin 0) (Fin 0))) = Fin (6375 / 10000) \<and>
   ingotFromFlamePerDig (miningEVBreakdown (ev_scenario (Fin 0) (Fin 0) (Fin 0))) = Fin (15 / 100) \<and>
   ingotNet (miningEVBreakdown (ev_scenario (Fin 0) (Fin 0) (Fin 0))) = Fin 5700 \<and>
   jadd (ingotFromShardsValuePerDig (miningEVBreakdown (ev_scenario (Fin 0) (Fin 0) (Fin 0))))
        (ingotFromFlameValuePerDig (miningEVBreakdown (ev_scenario (Fin 0) (Fin 0) (Fin 0))))
     = Fin (448875 / 100)"
  by (rule ev_scenario_values [of "Fin 0" "Fin 0" "Fin 0"])

text \<open>
  The total of 4493.25 that the claim C1 states is not what the scenario gives: with no
  gem income, neither the sum of the two ingot values nor the total per action is
  4493.25.
\<close>

theorem ev_scenario_total_counterexample:
  "jadd (ingotFromShardsValuePerDig (miningEVBreakdown (ev_scenario (Fin 0) (Fin 0) (Fin 0))))
        (ingotFromFlameValuePerDig (miningEVBreakdown (ev_scenario (Fin 0) (Fin 0) (Fin 0))))
     \<noteq> Fin (449325 / 100) \<and>
   totalPerDig (miningEVBreakdown (ev_scenario (Fin 0) (Fin 0) (Fin 0))) \<noteq> Fin (449325 / 100)"
  by (simp add: miningEVBreakdown_def Let_def ev_scenario_simps)

text \<open>
  C3 (as amended). For every input whose base shard yield \<open>b\<close> and shards per ingot \<open>u\<close>
  are finite, with \<open>p\<close> the replacement probability clamped to the unit interval, the
  normal-path yield per action is \<open>(1 - p) * (max 0 b / max 1 u)\<close>, which is
  \<open>(1 - p) * (b / max 1 u)\<close> for the yields \<open>b \<ge> 0\<close> that the shard table gives and
  \<open>(1 - p) * (b / u)\<close> when moreover \<open>u \<ge> 1\<close>; the replacement-path yield is \<open>p * 1\<close>;
  at \<open>p = 1\<close> the normal-path yield is 0. The replacement is not added on top of an
  un-reduced normal term: the two ingot values are the reduced yield and \<open>p\<close>, each
  times the net ingot price, the total per action is their sum plus the gem value,
  and the total per stamina is that total over the stamina floored at 1. With a
  finite price \<open>g\<close> and fee rate \<open>f\<close> the two ingot values add up to
  \<open>((1 - p) * (max 0 b / max 1 u) + p) * (max 0 g * (1 - f))\<close>, which at \<open>p = 1\<close> is the
  net price of one ingot.
\<close>

theorem ev_yields:
  assumes "shardsPerDig i = Fin b" and "shardsPerIngot i = Fin u"
  shows "\<exists>p. clamp01 (flamingIngotProb i) = Fin p \<and> 0 \<le> p \<and> p \<le> 1 \<and>
           ingotFromShardsPerDig (miningEVBreakdown i) = Fin ((1 - p) * (max 0 b / max 1 u)) \<and>
           ingotFromFlamePerDig (miningEVBreakdown i) = Fin (p * 1) \<and>
           (p = 1 \<longrightarrow> ingotFromShardsPerDig (miningEVBreakdown i) = Fin 0) \<and>
           (0 \<le> b \<longrightarrow>
              ingotFromShardsPerDig (miningEVBreakdown i) = Fin ((1 - p) * (b / max 1 u))) \<and>
           (0 \<le> b \<and> 1 \<le> u \<longrightarrow>
              ingotFromShardsPerDig (miningEVBreakdown i) = Fin ((1 - p) * (b / u))) \<and>
           ingotNet (miningEVBreakdown i) =
              netSell (Math_max (Fin 0) (ingotGrossPrice i)) (sellFeeRate i) \<and>
           ingotFromShardsValuePerDig (miningEVBreakdown i) =
              jmul (Fin ((1 - p) * (max 0 b / max 1 u))) (ingotNet (miningEVBreakdown i)) \<and>
           ingotFromFlameValuePerDig (miningEVBreakdown i) =
              jmul (Fin p) (ingotNet (miningEVBreakdown i)) \<and>
           totalPerDig (miningEVBreakdown i) =
              jadd (jadd (jmul (Fin ((1 - p) * (max 0 b / max 1 u))) (ingotNet (miningEVBreakdown i)))
                         (jmul (Fin p) (ingotNet (miningEVBreakdown i))))
                   (gemValuePerDig (miningEVBreakdown i)) \<and>
           totalPerStamina (miningEVBreakdown i) =
              jdiv (totalPerDig (miningEVBreakdown i)) (Math_max (Fin 1) (staminaPerDig i)) \<and>
           (\<forall>g f. ingotGrossPrice i = Fin g \<and> sellFeeRate i = Fin f \<longrightarrow>
              jadd (ingotFromShardsValuePerDig (miningEVBreakdown i))
                   (ingotFromFlameValuePerDig (miningEVBreakdown i)) =
                Fin (((1 - p) * (max 0 b / max 1 u) + p) * (max 0 g * (1 - f))) \<and>
              totalPerDig (miningEVBreakdown i) =
                jadd (Fin (((1 - p) * (max 0 b / max 1 u) + p) * (max 0 g * (1 - f))))
                     (gemValuePerDig (miningEVBreakdown i)) \<and>
              (p = 1 \<longrightarrow>
                 jadd (ingotFromShardsValuePerDig (miningEVBreakdown i))
                      (ingotFromFlameValuePerDig (miningEVBreakdown i)) = Fin (max 0 g * (1 - f))))"
proof -
  obtain p where p: "clamp01 (flamingIngotProb i) = Fin p" "0 \<le> p" "p \<le> 1"
    by (rule clamp01_cases)
  have nz: "max 1 u \<noteq> 0" by simp
  let ?r = "miningEVBreakdown i"
  let ?y = "(1 - p) * (max 0 b / max 1 u)"
  have y: "ingotFromShardsPerDig ?r = Fin ?y"
    using p assms nz by (simp add: miningEVBreakdown_def Let_def)
  have fl: "ingotFromFlamePerDig ?r = Fin (p * 1)"
    using p by (simp add: miningEVBreakdown_def Let_def)
  have net: "ingotNet ?r = netSell (Math_max (Fin 0) (ingotGrossPrice i)) (sellFeeRate i)"
    by (simp add: miningEVBreakdown_def Let_def)
  have sv: "ingotFromShardsValuePerDig ?r = jmul (Fin ?y) (ingotNet ?r)"
    using p assms nz by (simp add: miningEVBreakdown_def Let_def)
  have fv: "ingotFromFlameValuePerDig ?r = jmul (Fin p) (ingotNet ?r)"
    using p by (simp add: miningEVBreakdown_def Let_def)
  have tot: "totalPerDig ?r = jadd (jadd (jmul (Fin ?y) (ingotNet ?r)) (jmul (Fin p) (ingotNet ?r)))
                                   (gemValuePerDig ?r)"
    using p assms nz by (simp add: miningEVBreakdown_def Let_def)
  have st: "totalPerStamina ?r = jdiv (totalPerDig ?r) (Math_max (Fin 1) (staminaPerDig i))"
    by (simp add: miningEVBreakdown_def Let_def)
  have y1: "p = 1 \<longrightarrow> ingotFromShardsPerDig ?r = Fin 0" using y by simp
  have y2: "0 \<le> b \<longrightarrow> ingotFromShardsPerDig ?r = Fin ((1 - p) * (b / max 1 u))"
    using y by (simp add: max_absorb2)
  have y3: "0 \<le> b \<and> 1 \<le> u \<longrightarrow> ingotFromShardsPerDig ?r = Fin ((1 - p) * (b / u))"
    using y by (simp add: max_absorb2)
  have fin: "jadd (ingotFromShardsValuePerDig ?r) (ingotFromFlameValuePerDig ?r) =
               Fin ((?y + p) * (max 0 g * (1 - f))) \<and>
             totalPerDig ?r = jadd (Fin ((?y + p) * (max 0 g * (1 - f)))) (gemValuePerDig ?r) \<and>
             (p = 1 \<longrightarrow> jadd (ingotFromShardsValuePerDig ?r) (ingotFromFlameValuePerDig ?r) =
                Fin (max 0 g * (1 - f)))"
    if gf: "ingotGrossPrice i = Fin g \<and> sellFeeRate i = Fin f" for g f
  proof -
    have n: "ingotNet ?r = Fin (max 0 g * (1 - f))" using gf by (simp add: net)
    have s: "jadd (ingotFromShardsValuePerDig ?r) (ingotFromFlameValuePerDig ?r) =
               Fin ((?y + p) * (max 0 g * (1 - f)))"
      unfolding sv fv n by (simp add: distrib_right)
    moreover have "totalPerDig ?r = jadd (Fin ((?y + p) * (max 0 g * (1 - f)))) (gemValuePerDig ?r)"
      unfolding tot n by (simp add: distrib_right)
    moreover have "p = 1 \<longrightarrow> jadd (ingotFromShardsValuePerDig ?r) (ingotFromFlameValuePerDig ?r) =
                Fin (max 0 g * (1 - f))"
      unfolding s by simp
    ultimately show ?thesis by blast
  qed
  show ?thesis
    using p y fl y1 y2 y3 net sv fv tot st fin by (intro exI[of _ p]) blast
qed

theorem ev_yields_witness:
  "shardsPerDig (ev_scenario (Fin 0) (Fin 0) (Fin 0)) = Fin 12 \<and>
   shardsPerIngot (ev_scenario (Fin 0) (Fin 0) (Fin 0)) = Fin 16 \<and>
   clamp01 (flamingIngotProb (ev_scenario (Fin 0) (Fin 0) (Fin 0))) = Fin (15 / 100) \<and>
   ingotFromShardsPerDig (miningEVBreakdown (ev_scenario (Fin 0) (Fin 0) (Fin 0)))
     = Fin ((1 - 15 / 100) * (12 / 16)) \<and>
   totalPerDig (miningEVBreakdown (ev_scenario (Fin 0) (Fin 0) (Fin 0)))
     = Fin (((1 - 15 / 100) * (12 / 16) + 15 / 100) * 5700)"
proof -
  have b: "shardsPerDig (ev_scenario (Fin 0) (Fin 0) (Fin 0)) = Fin 12"
    and u: "shardsPerIngot (ev_scenario (Fin 0) (Fin 0) (Fin 0)) = Fin 16"
    by (simp_all add: ev_scenario_simps)
  have g: "ingotGrossPrice (ev_scenario (Fin 0) (Fin 0) (Fin 0)) = Fin 6000 \<and>
           sellFeeRate (ev_scenario (Fin 0) (Fin 0) (Fin 0)) = Fin (5 / 100)"
    by (simp add: ev_scenario_simps)
  have gem: "gemValuePerDig (miningEVBreakdown (ev_scenario (Fin 0) (Fin 0) (Fin 0))) = Fin 0"
    by (simp add: miningEVBreakdown_def Let_def ev_scenario_simps)
  obtain p where p: "clamp01 (flamingIngotProb (ev_scenario (Fin 0) (Fin 0) (Fin 0))) = Fin p"
    and y: "ingotFromShardsPerDig (miningEVBreakdown (ev_scenario (Fin 0) (Fin 0) (Fin 0)))
              = Fin ((1 - p) * (max 0 12 / max 1 16))"
    and t: "totalPerDig (miningEVBreakdown (ev_scenario (Fin 0) (Fin 0) (Fin 0))) =
              jadd (Fin (((1 - p) * (max 0 12 / max 1 16) + p) * (max 0 6000 * (1 - 5 / 100))))
                   (gemValuePerDig (miningEVBreakdown (ev_scenario (Fin 0) (Fin 0) (Fin 0))))"
    using ev_yields [OF b u] g by blast
  have p': "p = 15 / 100" using p by (simp add: ev_scenario_simps)
  show ?thesis using b u p y t by (simp add: p' gem)
qed

text \<open>
  The formula of the claim C3 on the raw inputs fails below the floor of the divisor:
  with 12 shards per action, half a shard per ingot (the text \<^verbatim>\<open>0.5\<close> in the field) and
  probability 0, the function returns 12 where \<open>(1 - p) * (b / u)\<close> is 24.
\<close>

theorem ev_yields_unclamped_counterexample:
  "ingotFromShardsPerDig (miningEVBreakdown ev_half_unit) = Fin 12 \<and>
   jmul (jsub (Fin 1) (clamp01 (flamingIngotProb ev_half_unit)))
        (jdiv (shardsPerDig ev_half_unit) (shardsPerIngot ev_half_unit)) = Fin 24"
  by (simp add: miningEVBreakdown_def Let_def ev_half_unit_def)

text \<open>
  C4. Replacing the replacement probability of an input by any other value leaves the
  gem value per action unchanged, and that value is the clamped drop probability
  times the drop count floored at 0 times the net gem price, the gem price floored
  at 0 after the fee.
\<close>

theorem gem_value_independent:
  "gemValuePerDig (miningEVBreakdown (i\<lparr>flamingIngotProb := q\<rparr>)) = gemValuePerDig (miningEVBreakdown i) \<and>
   gemValuePerDig (miningEVBreakdown i) =
     jmul (jmul (clamp01 (gemDropProb i)) (Math_max (Fin 0) (gemDropCount i))) (gemNet (miningEVBreakdown i)) \<and>
   gemNet (miningEVBreakdown i) = netSell (Math_max (Fin 0) (gemGrossPrice i)) (sellFeeRate i)"
  by (simp add: miningEVBreakdown_def Let_def)

theorem gem_value_independent_witness:
  "gemValuePerDig (miningEVBreakdown ((ev_scenario (Fin (1 / 10)) (Fin 2) (Fin 12000))\<lparr>flamingIngotProb := Fin 1\<rparr>))
     = gemValuePerDig (miningEVBreakdown (ev_scenario (Fin (1 / 10)) (Fin 2) (Fin 12000))) \<and>
   gemValuePerDig (miningEVBreakdown (ev_scenario (Fin (1 / 10)) (Fin 2) (Fin 12000))) = Fin 2280"
  using gem_value_independent [where i = "ev_scenario (Fin (1 / 10)) (Fin 2) (Fin 12000)" and q = "Fin 1"]
  by (simp add: miningEVBreakdown_def Let_def ev_scenario_simps)

section \<open>The crafting comparison: results\<close>

text \<open>
  C8. For a market price \<open>m \<ge> 0\<close> and a fee rate \<open>f\<close> in the unit interval, the unit cost
  is 0 for the mode \<^verbatim>\<open>owned\<close>, \<open>m\<close> for \<^verbatim>\<open>buy\<close> and \<open>m * (1 - f)\<close> for \<^verbatim>\<open>opportunity\<close>.
\<close>

theorem unitCostByMode_modes:
  assumes "0 \<le> m" and "0 \<le> f" and "f \<le> 1"
  shows "unitCostByMode (JStr ''owned'') (Fin m) (Fin f) = Fin 0 \<and>
         unitCostByMode (JStr ''buy'') (Fin m) (Fin f) = Fin m \<and>
         unitCostByMode (JStr ''opportunity'') (Fin m) (Fin f) = Fin (m * (1 - f))"
  using assms by (simp add: unitCostByMode_def max_absorb2)

theorem unitCostByMode_modes_witness:
  "(0::real) \<le> 6000 \<and> (0::real) \<le> 5 / 100 \<and> (5 / 100 :: real) \<le> 1 \<and>
   unitCostByMode (JStr ''owned'') (Fin 6000) (Fin (5 / 100)) = Fin 0 \<and>
   unitCostByMode (JStr ''buy'') (Fin 6000) (Fin (5 / 100)) = Fin 6000 \<and>
   unitCostByMode (JStr ''opportunity'') (Fin 6000) (Fin (5 / 100)) = Fin 5700"
proof -
  have h: "(0::real) \<le> 6000" "(0::real) \<le> 5 / 100" "(5 / 100 :: real) \<le> 1" by simp_all
  show ?thesis using unitCostByMode_modes [OF h] by simp
qed

text \<open>
  C7. With finite quantities and a finite fee rate \<open>f\<close>, the raw-sell baseline of a recipe
  is the sum, over its entries, of 0 for an entry whose mode is \<^verbatim>\<open>buy\<close> and of quantity
  times market rate times \<open>1 - f\<close> for every other entry, whatever its mode.
\<close>

theorem sellIndivNet_sum:
  "sellIndivNet Number modes prices (Fin f) (map (\<lambda>(k, q). (k, Fin q)) recipe) =
     Fin (\<Sum>(k, q) \<leftarrow> recipe.
            if mode_of modes k = JStr ''buy'' then 0
            else q * the_fin (market_of Number prices k) * (1 - f))"
proof -
  have eq: "map (\<lambda>(k, qty'). if mode_of modes k = JStr ''buy'' then Fin 0
                else jmul (num_or_zero qty') (netSell (market_of Number prices k) (Fin f)))
          (map (\<lambda>(k, q). (k, Fin q)) recipe)
        = map Fin (map (\<lambda>(k, q). if mode_of modes k = JStr ''buy'' then 0
            else q * the_fin (market_of Number prices k) * (1 - f)) recipe)"
    by (induction recipe) (auto simp: sell_entry_Fin)
  show ?thesis
    unfolding sellIndivNet_def sum_js_def eq foldl_jadd_Fin by simp
qed

theorem sellIndivNet_sum_witness:
  "sellIndivNet Number_none
     [(''ingot'', JStr ''opportunity''), (''diamond'', JStr ''buy'')]
     [(''ingot'', JObj [(''market'', JNum (Fin 6000))]),
      (''diamond'', JObj [(''market'', JNum (Fin 2900))]),
      (''iron'', JObj [(''market'', JNum (Fin 700))])]
     (Fin (5 / 100))
     [(''ingot'', Fin 2), (''diamond'', Fin 3), (''iron'', Fin 5)] = Fin 14725"
  using sellIndivNet_sum [of Number_none
     "[(''ingot'', JStr ''opportunity''), (''diamond'', JStr ''buy'')]"
     "[(''ingot'', JObj [(''market'', JNum (Fin 6000))]),
       (''diamond'', JObj [(''market'', JNum (Fin 2900))]),
       (''iron'', JObj [(''market'', JNum (Fin 700))])]"
     "5 / 100" "[(''ingot'', 2), (''diamond'', 3), (''iron'', 5)]"]
  by (simp add: mode_of_def market_of_def get_own_def js_or_def)

lemma craft_scenario_parts:
  "mode_of [(k, JStr ''opportunity'')] k = JStr ''opportunity''"
  "market_of Number [(k, JObj [(''market'', JNum (Fin 6000))])] k = Fin 6000"
  by (simp_all add: mode_of_def market_of_def get_own_def js_or_def)

text \<open>
  C2 (as amended). In the scenario of a recipe of 3 units of one resource with a market
  rate of 6000 and the mode \<^verbatim>\<open>opportunity\<close>, a fee rate of 0.05 and a product price of
  18000, the comparison has a total cost of 17100, a revenue of 17100, a profit of 0
  and a raw-sell baseline of 17100; profit minus baseline is -17100, as is the rounded
  delta, and the rule \<open>profit - baseline \<ge> 0\<close> does not recommend crafting.
\<close>

theorem craft_scenario_values:
  "totalCost (craft_scenario Number k) = Fin 17100 \<and>
   revenue (craft_scenario Number k) = Fin 17100 \<and>
   profit (craft_scenario Number k) = Fin 0 \<and>
   row_sellIndivNet (craft_scenario Number k) = Fin 17100 \<and>
   jsub (profit (craft_scenario Number k)) (row_sellIndivNet (craft_scenario Number k)) = Fin (- 17100) \<and>
   deltaRevenueVsIndiv (craft_scenario Number k) = Fin (- 17100) \<and>
   \<not> craft_recommended (craft_scenario Number k)"
  by (simp add: craft_scenario_def compare_def craft_def craft_costs_def craftProfit_def
      sellIndivNet_def sum_js_def deltaByRounded_def craft_recommended_def unitCostByMode_def
      craft_scenario_parts Let_def)

theorem craft_scenario_values_witness:
  "totalCost (craft_scenario Number_none ''ingot'') = Fin 17100 \<and>
   revenue (craft_scenario Number_none ''ingot'') = Fin 17100 \<and>
   profit (craft_scenario Number_none ''ingot'') = Fin 0 \<and>
   row_sellIndivNet (craft_scenario Number_none ''ingot'') = Fin 17100 \<and>
   jsub (profit (craft_scenario Number_none ''ingot''))
        (row_sellIndivNet (craft_scenario Number_none ''ingot'')) = Fin (- 17100) \<and>
   deltaRevenueVsIndiv (craft_scenario Number_none ''ingot'') = Fin (- 17100) \<and>
   \<not> craft_recommended (craft_scenario Number_none ''ingot'')"
  by (rule craft_scenario_values [of Number_none "''ingot''"])

text \<open>
  The delta of 0 and the recommendation to craft that the claim C2 states are not what
  the scenario gives.
\<close>

theorem craft_scenario_delta_counterexample:
  "jsub (profit (craft_scenario Number_none ''ingot''))
        (row_sellIndivNet (craft_scenario Number_none ''ingot'')) \<noteq> Fin 0 \<and>
   deltaRevenueVsIndiv (craft_scenario Number_none ''ingot'') \<noteq> Fin 0 \<and>
   \<not> craft_recommended (craft_scenario Number_none ''ingot'')"
  by (simp add: craft_scenario_def compare_def craft_def craft_costs_def craftProfit_def
      sellIndivNet_def sum_js_def deltaByRounded_def craft_recommended_def unitCostByMode_def
      craft_scenario_parts Let_def)

section \<open>The normalizer and the fee rate: results\<close>

text \<open>
  C9. For a finite fallback, \<open>toNum\<close> returns a finite number on every value; it returns
  the fallback on a value that is neither a number nor a string, on a string whose
  trimmed form is empty, \<^verbatim>\<open>-\<close>, \<^verbatim>\<open>.\<close> or \<^verbatim>\<open>-.\<close>, and on a string whose conversion is not
  finite; and it returns a finite number unchanged. The function is total: no
  branch of it raises.
\<close>

theorem toNum_contract:
  assumes "isFinite fb"
  shows "isFinite (toNum Number v fb) \<and>
         ((\<forall>n. v \<noteq> JNum n) \<and> (\<forall>s. v \<noteq> JStr s) \<longrightarrow> toNum Number v fb = fb) \<and>
         (\<forall>s. v = JStr s \<and> (trim s = [] \<or> trim s = ''-'' \<or> trim s = ''.'' \<or> trim s = ''-.'')
              \<longrightarrow> toNum Number v fb = fb) \<and>
         (\<forall>s. v = JStr s \<and> \<not> isFinite (Number (trim s)) \<longrightarrow> toNum Number v fb = fb) \<and>
         (\<forall>x. v = JNum (Fin x) \<longrightarrow> toNum Number v fb = Fin x)"
  using assms by (cases v) (auto simp: Let_def)

theorem toNum_contract_witness:
  "isFinite (Fin 7) \<and> isFinite (toNum Number_none (JStr '' -. '') (Fin 7)) \<and>
   trim '' -. '' = ''-.'' \<and> toNum Number_none (JStr '' -. '') (Fin 7) = Fin 7"
proof -
  have h: "isFinite (Fin 7)" by simp
  have t: "trim '' -. '' = ''-.''" by (simp add: trim_def js_space_def)
  show ?thesis using toNum_contract [OF h, of Number_none "JStr '' -. ''"] t by simp
qed

text \<open>
  C10. The fee rate handed to the calculators is \<open>toNum(feePct, 0) / 100\<close> clamped into
  the interval from 0 to 0.5: it is a finite number, at least 0 and at most 0.5,
  whatever the field \<^verbatim>\<open>feePct\<close> holds.
\<close>

theorem feeRate_bounds:
  "feeRate_of Number feePct = Fin (max 0 (min (1 / 2) (the_fin (toNum Number feePct (Fin 0)) / 100))) \<and>
   jle (Fin 0) (feeRate_of Number feePct) \<and> jle (feeRate_of Number feePct) (Fin (1 / 2))"
proof -
  have "isFinite (toNum Number feePct (Fin 0))" by (rule toNum_finite) simp
  then obtain r where "toNum Number feePct (Fin 0) = Fin r" by (auto simp: isFinite_iff)
  then show ?thesis by (simp add: feeRate_of_def Let_def)
qed

theorem feeRate_bounds_witness:
  "feeRate_of Number_none (JNum (Fin 700)) = Fin (1 / 2) \<and>
   feeRate_of Number_none (JStr ''abc'') = Fin 0 \<and>
   feeRate_of Number_none (JNum (Fin 5)) = Fin (5 / 100)"
  using feeRate_bounds [of Number_none "JNum (Fin 700)"]
        feeRate_bounds [of Number_none "JStr ''abc''"]
        feeRate_bounds [of Number_none "JNum (Fin 5)"]
  by (simp add: trim_def js_space_def Number_none_def)

section \<open>State migration: results\<close>

subsection \<open>Property lists\<close>

lemma map_fst_set_own:
  "map fst (set_own l k v) = (if k \<in> fst ` set l then map fst l else map fst l @ [k])"
  by (induction l) force+

lemma map_of_set_own: "map_of (set_own l k v) k' = (if k' = k then Some v else map_of l k')"
  by (induction l) auto

lemma get_own_set_own: "get_own (set_own l k v) k' = (if k' = k then v else get_own l k')"
  by (simp add: get_own_def map_of_set_own)

lemma distinct_set_own: "distinct (map fst l) \<Longrightarrow> distinct (map fst (set_own l k v))"
  by (simp add: map_fst_set_own)

lemma set_own_same: "map_of l k = Some v \<Longrightarrow> set_own l k v = l"
  by (induction l) (auto split: if_splits)

lemma set_own_new: "k \<notin> fst ` set l \<Longrightarrow> set_own l k v = l @ [(k, v)]"
  by (induction l) auto

lemma set_set_own: "set (set_own l k v) \<subseteq> insert (k, v) (set l)"
  by (induction l) (auto split: if_splits)

lemma get_own_Some: "map_of l k = Some v \<Longrightarrow> get_own l k = v"
  by (simp add: get_own_def)

lemma get_own_None: "map_of l k = None \<Longrightarrow> get_own l k = JUndefined"
  by (simp add: get_own_def)

lemma filter_notin_self: "filter (\<lambda>k. k \<notin> fst ` set l) (map fst l) = []"
  by (simp add: filter_empty_conv)

lemma alist_eqI:
  "distinct (map fst xs) \<Longrightarrow> map fst xs = map fst ys \<Longrightarrow> (\<And>k. map_of xs k = map_of ys k) \<Longrightarrow> xs = ys"
proof (induction xs arbitrary: ys)
  case Nil
  then show ?case by simp
next
  case (Cons x xs)
  obtain y ys' where ys: "ys = y # ys'" using Cons.prems(2) by (cases ys) auto
  obtain k v where x: "x = (k, v)" by (cases x)
  obtain w where y: "y = (k, w)" using Cons.prems(2) ys x by (cases y) auto
  have "v = w" using Cons.prems(3)[of k] by (simp add: x y ys)
  have keys: "map fst xs = map fst ys'" using Cons.prems(2) ys by simp
  have "k \<notin> fst ` set xs" using Cons.prems(1) x by auto
  then have kx: "map_of xs k = None" by (simp add: map_of_eq_None_iff)
  have "k \<notin> fst ` set ys'" using \<open>k \<notin> fst ` set xs\<close> keys by (metis set_map)
  then have ky: "map_of ys' k = None" by (simp add: map_of_eq_None_iff)
  have "xs = ys'"
  proof (rule Cons.IH)
    show "distinct (map fst xs)" using Cons.prems(1) by simp
    show "map fst xs = map fst ys'" by (rule keys)
    fix k'
    show "map_of xs k' = map_of ys' k'"
      using Cons.prems(3)[of k'] kx ky by (cases "k' = k") (simp_all add: x y ys)
  qed
  then show ?case by (simp add: x y ys \<open>v = w\<close>)
qed

subsection \<open>The merge loop in closed form\<close>

lemma merge_entries_step:
  "merge_entries out ((k, v) # rest) = merge_entries (set_own out k (merged_value (get_own out k) v)) rest"
  by (simp add: merged_value_def)

lemma map_fst_merge_entries:
  "distinct (map fst p) \<Longrightarrow>
   map fst (merge_entries out p) = map fst out @ filter (\<lambda>k. k \<notin> fst ` set out) (map fst p)"
proof (induction p arbitrary: out)
  case Nil
  then show ?case by simp
next
  case (Cons kv p)
  obtain k v where kv: "kv = (k, v)" by (cases kv)
  have d: "distinct (map fst p)" and k: "k \<notin> fst ` set p" using Cons.prems kv by auto
  let ?out = "set_own out k (merged_value (get_own out k) v)"
  have keys: "fst ` set ?out = insert k (fst ` set out)"
    using map_fst_set_own[of out k "merged_value (get_own out k) v"]
    by (metis (no_types, lifting) insert_absorb list.set_map set_append list.simps(15) Un_insert_right sup_bot.right_neutral empty_set)
  have "map fst (merge_entries out (kv # p)) = map fst ?out @ filter (\<lambda>k. k \<notin> fst ` set ?out) (map fst p)"
    unfolding kv merge_entries_step by (rule Cons.IH[OF d])
  also have "filter (\<lambda>k'. k' \<notin> fst ` set ?out) (map fst p) = filter (\<lambda>k'. k' \<notin> fst ` set out) (map fst p)"
    using k by (intro filter_cong) (auto simp: keys)
  finally show ?case
    by (auto simp: kv map_fst_set_own)
qed

lemma map_of_merge_entries:
  "distinct (map fst p) \<Longrightarrow>
   map_of (merge_entries out p) k =
     (case map_of p k of None \<Rightarrow> map_of out k | Some v \<Rightarrow> Some (merged_value (get_own out k) v))"
proof (induction p arbitrary: out)
  case Nil
  then show ?case by simp
next
  case (Cons kv p)
  obtain k0 v0 where kv: "kv = (k0, v0)" by (cases kv)
  have d: "distinct (map fst p)" and k0: "k0 \<notin> fst ` set p" using Cons.prems kv by auto
  then have none: "map_of p k0 = None" by (simp add: map_of_eq_None_iff)
  show ?case
    unfolding kv merge_entries_step Cons.IH[OF d]
    by (cases "k = k0") (simp_all add: none map_of_set_own get_own_set_own split: option.split)
qed

lemma distinct_merge_entries:
  "distinct (map fst out) \<Longrightarrow> distinct (map fst (merge_entries out p))"
proof (induction p arbitrary: out)
  case Nil
  then show ?case by simp
next
  case (Cons kv p)
  obtain k v where kv: "kv = (k, v)" by (cases kv)
  show ?case unfolding kv merge_entries_step
    by (rule Cons.IH) (rule distinct_set_own[OF Cons.prems])
qed

lemma merge_entries_eqI:
  assumes dp: "distinct (map fst p)" and dout: "distinct (map fst out)"
    and keys: "map fst out @ filter (\<lambda>k. k \<notin> fst ` set out) (map fst p) = map fst r"
    and vals: "\<And>k. (case map_of p k of None \<Rightarrow> map_of out k
                      | Some v \<Rightarrow> Some (merged_value (get_own out k) v)) = map_of r k"
  shows "merge_entries out p = r"
proof (rule alist_eqI)
  show "distinct (map fst (merge_entries out p))" by (rule distinct_merge_entries[OF dout])
  show "map fst (merge_entries out p) = map fst r" by (simp add: map_fst_merge_entries[OF dp] keys)
  fix k show "map_of (merge_entries out p) k = map_of r k"
    by (simp add: map_of_merge_entries[OF dp] vals)
qed

lemma merged_keys_subset:
  assumes "distinct (map fst l)" and "merge_entries d l = l"
  shows "fst ` set d \<subseteq> fst ` set l"
proof -
  have "map fst l = map fst d @ filter (\<lambda>k. k \<notin> fst ` set d) (map fst l)"
    using map_fst_merge_entries[OF assms(1), of d] assms(2) by simp
  then have "set (map fst d) \<subseteq> set (map fst l)"
    by (metis set_append Un_upper1)
  then show ?thesis by simp
qed

subsection \<open>Merging twice is merging once\<close>

lemma keys_distinct_value:
  "keys_distinct (JObj l) \<Longrightarrow> map_of l k = Some v \<Longrightarrow> keys_distinct v"
  by (auto simp: list_all_iff dest!: map_of_SomeD)

lemma keys_distinct_set_own:
  "keys_distinct (JObj l) \<Longrightarrow> keys_distinct v \<Longrightarrow> keys_distinct (JObj (set_own l k v))"
  using set_set_own[of l k v] by (auto simp: list_all_iff distinct_set_own)

lemma deepMerge_self: "keys_distinct b \<Longrightarrow> deepMerge b b = b"
proof (induction b)
  case (JObj l)
  have d: "distinct (map fst l)" using JObj.prems by simp
  have "merge_entries l l = l"
  proof (rule merge_entries_eqI[OF d d])
    show "map fst l @ filter (\<lambda>k. k \<notin> fst ` set l) (map fst l) = map fst l"
      by (simp add: filter_notin_self)
    fix k
    show "(case map_of l k of None \<Rightarrow> map_of l k
           | Some v \<Rightarrow> Some (merged_value (get_own l k) v)) = map_of l k"
    proof (cases "map_of l k")
      case None
      then show ?thesis by simp
    next
      case (Some v)
      then have mem: "(k, v) \<in> set l" by (rule map_of_SomeD)
      have kd: "keys_distinct v" by (rule keys_distinct_value[OF JObj.prems Some])
      have "deepMerge v v = v" using JObj.IH[of "(k, v)" v] mem kd by simp
      then show ?thesis by (simp add: Some get_own_Some merged_value_def)
    qed
  qed
  then show ?case by simp
qed simp_all

lemma deepMerge_not_plain:
  "\<not> (isPlainObject b \<and> isPlainObject p) \<Longrightarrow> deepMerge b p = nullish p b"
  by (cases b; cases p) simp_all

lemma isPlainObject_deepMerge: "isPlainObject b \<Longrightarrow> isPlainObject p \<Longrightarrow> isPlainObject (deepMerge b p)"
  by (cases b; cases p) simp_all

lemma deepMerge_idem:
  "keys_distinct b \<Longrightarrow> keys_distinct p \<Longrightarrow> deepMerge b (deepMerge b p) = deepMerge b p"
proof (induction p arbitrary: b)
  case (JObj pl)
  show ?case
  proof (cases b)
    case (JObj bl)
    have dp: "distinct (map fst pl)" and db: "distinct (map fst bl)"
      using JObj.prems \<open>b = JObj bl\<close> by simp_all
    let ?r = "merge_entries bl pl"
    have dr: "distinct (map fst ?r)" by (rule distinct_merge_entries[OF db])
    have keys_r: "map fst ?r = map fst bl @ filter (\<lambda>k. k \<notin> fst ` set bl) (map fst pl)"
      by (rule map_fst_merge_entries[OF dp])
    have "merge_entries bl ?r = ?r"
    proof (rule merge_entries_eqI[OF dr db])
      show "map fst bl @ filter (\<lambda>k. k \<notin> fst ` set bl) (map fst ?r) = map fst ?r"
        by (simp add: keys_r filter_notin_self)
      fix k
      show "(case map_of ?r k of None \<Rightarrow> map_of bl k
             | Some v \<Rightarrow> Some (merged_value (get_own bl k) v)) = map_of ?r k"
      proof (cases "map_of pl k")
        case None
        show ?thesis
        proof (cases "map_of bl k")
          case None
          then show ?thesis by (simp add: map_of_merge_entries[OF dp] \<open>map_of pl k = None\<close>)
        next
          case (Some bv)
          have "keys_distinct bv"
            using keys_distinct_value[OF _ Some] JObj.prems(1) \<open>b = JObj bl\<close> by simp
          then have "deepMerge bv bv = bv" by (rule deepMerge_self)
          then show ?thesis
            by (simp add: map_of_merge_entries[OF dp] \<open>map_of pl k = None\<close> Some get_own_Some merged_value_def)
        qed
      next
        case (Some v)
        then have mem: "(k, v) \<in> set pl" by (rule map_of_SomeD)
        have kv: "keys_distinct v" by (rule keys_distinct_value[OF JObj.prems(2) Some])
        let ?bv = "get_own bl k"
        have kb: "keys_distinct ?bv"
        proof (cases "map_of bl k")
          case None
          then show ?thesis by (simp add: get_own_None)
        next
          case (Some bv)
          then show ?thesis
            using keys_distinct_value[OF _ Some] JObj.prems(1) \<open>b = JObj bl\<close> by (simp add: get_own_Some)
        qed
        have ih: "deepMerge ?bv (deepMerge ?bv v) = deepMerge ?bv v"
          using JObj.IH[of "(k, v)" v ?bv] mem kb kv by simp
        have "merged_value ?bv (merged_value ?bv v) = merged_value ?bv v"
          by (simp add: merged_value_def ih isPlainObject_deepMerge)
        then show ?thesis
          by (simp add: map_of_merge_entries[OF dp] Some)
      qed
    qed
    then show ?thesis by (simp add: \<open>b = JObj bl\<close>)
  qed (simp_all add: deepMerge_self[OF JObj.prems(2)])
next
  case JUndefined
  have "deepMerge b b = b" by (rule deepMerge_self) (rule JUndefined.prems(1))
  then show ?case by (cases b) simp_all
next
  case JNull
  have "deepMerge b b = b" by (rule deepMerge_self) (rule JNull.prems(1))
  then show ?case by (cases b) simp_all
qed (cases b; simp)+

subsection \<open>Spreading\<close>

lemma foldl_set_own_distinct:
  "distinct (map fst (acc @ l)) \<Longrightarrow> foldl (\<lambda>acc (k, v). set_own acc k v) acc l = acc @ l"
proof (induction l arbitrary: acc)
  case Nil
  then show ?case by simp
next
  case (Cons kv l)
  obtain k v where kv: "kv = (k, v)" by (cases kv)
  have "k \<notin> fst ` set acc" using Cons.prems kv by auto
  then have step: "set_own acc k v = acc @ [(k, v)]" by (rule set_own_new)
  have "distinct (map fst ((acc @ [(k, v)]) @ l))" using Cons.prems kv by simp
  then have "foldl (\<lambda>acc (k, v). set_own acc k v) (acc @ [(k, v)]) l = (acc @ [(k, v)]) @ l"
    by (rule Cons.IH)
  then show ?case by (simp add: kv step)
qed

lemma spread_into_obj: "distinct (map fst l) \<Longrightarrow> spread_into [] (JObj l) = l"
  using foldl_set_own_distinct[of "[]" l] by (simp add: spread_into_def)

lemma with_prop_obj: "distinct (map fst l) \<Longrightarrow> with_prop (JObj l) k X = JObj (set_own l k X)"
  by (simp add: with_prop_def spread_into_obj)

lemma foldl_set_own_keys:
  assumes "map fst acc = ks @ rest0" and "set rest0 \<inter> set ks = {}"
  shows "\<exists>rest. map fst (foldl (\<lambda>acc (k, v). set_own acc k v) acc es) = ks @ rest \<and> set rest \<inter> set ks = {}"
  using assms
proof (induction es arbitrary: acc rest0)
  case Nil
  then show ?case by auto
next
  case (Cons kv es)
  obtain k v where kv: "kv = (k, v)" by (cases kv)
  show ?case
  proof (cases "k \<in> fst ` set acc")
    case True
    then have "map fst (set_own acc k v) = ks @ rest0" by (simp add: map_fst_set_own Cons.prems(1))
    from Cons.IH[OF this Cons.prems(2)] show ?thesis by (simp add: kv)
  next
    case False
    then have 1: "map fst (set_own acc k v) = ks @ (rest0 @ [k])"
      by (simp add: map_fst_set_own Cons.prems(1))
    have "k \<notin> set ks" using False Cons.prems(1) by (metis Un_iff set_append set_map)
    then have 2: "set (rest0 @ [k]) \<inter> set ks = {}" using Cons.prems(2) by auto
    from Cons.IH[OF 1 2] show ?thesis by (simp add: kv)
  qed
qed

lemma foldl_set_own_distinct_keys:
  "distinct (map fst acc) \<Longrightarrow> distinct (map fst (foldl (\<lambda>acc (k, v). set_own acc k v) acc es))"
  by (induction es arbitrary: acc) (auto simp: distinct_set_own)

lemma spread_absorb:
  assumes dl: "distinct (map fst lit)" and np: "\<And>k v. (k, v) \<in> set lit \<Longrightarrow> \<not> isPlainObject v"
  shows "merge_entries lit (spread_into lit Y) = spread_into lit Y"
    and "distinct (map fst (spread_into lit Y))"
proof -
  let ?r = "spread_into lit Y"
  show dr: "distinct (map fst ?r)"
    unfolding spread_into_def by (rule foldl_set_own_distinct_keys[OF dl])
  obtain rest where rest: "map fst ?r = map fst lit @ rest" "set rest \<inter> set (map fst lit) = {}"
    using foldl_set_own_keys[of lit "map fst lit" "[]" "own_entries Y"]
    unfolding spread_into_def by auto
  have np': "\<not> isPlainObject (get_own lit k)" for k
  proof (cases "map_of lit k")
    case None
    then show ?thesis by (simp add: get_own_None)
  next
    case (Some v)
    then show ?thesis using np[OF map_of_SomeD[OF Some]] by (simp add: get_own_Some)
  qed
  show "merge_entries lit ?r = ?r"
  proof (rule merge_entries_eqI[OF dr dl])
    have "filter (\<lambda>k. k \<notin> fst ` set lit) rest = rest"
      using rest(2) by (auto simp: filter_id_conv)
    then show "map fst lit @ filter (\<lambda>k. k \<notin> fst ` set lit) (map fst ?r) = map fst ?r"
      by (simp add: rest(1) filter_notin_self)
    fix k
    show "(case map_of ?r k of None \<Rightarrow> map_of lit k
           | Some v \<Rightarrow> Some (merged_value (get_own lit k) v)) = map_of ?r k"
    proof (cases "map_of ?r k")
      case None
      then have "k \<notin> set (map fst ?r)" by (simp add: map_of_eq_None_iff)
      then have "k \<notin> fst ` set lit" by (simp add: rest(1))
      then have "map_of lit k = None" by (simp add: map_of_eq_None_iff)
      then show ?thesis by (simp add: None)
    next
      case (Some v)
      then show ?thesis by (simp add: merged_value_def np')
    qed
  qed
qed

lemma normalize_prices_keys_distinct:
  "normalize_prices nts acc es = Some n \<Longrightarrow> keys_distinct (JObj acc) \<Longrightarrow> keys_distinct (JObj n)"
proof (induction es arbitrary: acc)
  case Nil
  then show ?case by simp
next
  case (Cons kv es)
  obtain k v where kv: "kv = (k, v)" by (cases kv)
  from Cons.prems(1) obtain t where
    rec: "normalize_prices nts (set_own acc k (JObj [(''market'', JStr t)])) es = Some n"
    unfolding kv normalize_prices.simps by (auto split: option.splits)
  have "keys_distinct (JObj (set_own acc k (JObj [(''market'', JStr t)])))"
    by (rule keys_distinct_set_own[OF Cons.prems(2)]) simp
  then show ?case by (rule Cons.IH[OF rec])
qed

subsection \<open>Documents that the default document absorbs\<close>

lemma absorbs_JObj [simp]:
  "absorbs d (JObj l) \<longleftrightarrow> distinct (map fst l) \<and> merge_entries d l = l"
  by (simp add: absorbs_def)

lemma absorbsE:
  assumes "absorbs d s"
  obtains l where "s = JObj l" and "distinct (map fst l)" and "merge_entries d l = l"
  using assms by (cases s) (simp_all add: absorbs_def)

lemma absorbs_set_own:
  assumes abs: "absorbs d (JObj l)" and dd: "distinct (map fst d)"
    and k: "k \<in> fst ` set d" and X: "merged_value (get_own d k) X = X"
  shows "absorbs d (JObj (set_own l k X))"
proof -
  have dl: "distinct (map fst l)" and m: "merge_entries d l = l" using abs by simp_all
  have kl: "k \<in> fst ` set l" using merged_keys_subset[OF dl m] k by auto
  have keys: "map fst (set_own l k X) = map fst l" by (simp add: map_fst_set_own kl)
  have dl': "distinct (map fst (set_own l k X))" by (simp add: keys dl)
  have "merge_entries d (set_own l k X) = set_own l k X"
  proof (rule merge_entries_eqI[OF dl' dd])
    show "map fst d @ filter (\<lambda>k. k \<notin> fst ` set d) (map fst (set_own l k X)) = map fst (set_own l k X)"
      using map_fst_merge_entries[OF dl, of d] m by (simp add: keys)
    fix k'
    show "(case map_of (set_own l k X) k' of None \<Rightarrow> map_of d k'
           | Some v \<Rightarrow> Some (merged_value (get_own d k') v)) = map_of (set_own l k X) k'"
    proof (cases "k' = k")
      case True
      then show ?thesis by (simp add: map_of_set_own X)
    next
      case False
      then show ?thesis
        using map_of_merge_entries[OF dl, of d k'] m by (simp add: map_of_set_own)
    qed
  qed
  then show ?thesis by (simp add: dl')
qed

lemma defaultState_distinct: "distinct (map fst defaultState)"
  by (simp add: defaultState_def)

lemma defaultState_keys_distinct: "keys_distinct (JObj defaultState)"
  by (simp add: defaultState_def)

lemma defaultState_fields:
  "get_own defaultState ''schemaVersion'' = JNum (Fin 4)"
  "get_own defaultState ''potionRowDetailsOpen'' =
     JObj [(''p100'', JBool False), (''p300'', JBool False), (''p500'', JBool False), (''p700'', JBool False)]"
  "get_own defaultState ''feedbacks'' = JObj [(''nextId'', JNum (Fin 1)), (''items'', JArr [])]"
  "get_own defaultState ''adminMode'' = JBool False"
  "isPlainObject (get_own defaultState ''prices'')"
  "keys_distinct (get_own defaultState ''prices'')"
  by (simp_all add: defaultState_def get_own_def)

lemma defaultState_keys:
  "''schemaVersion'' \<in> fst ` set defaultState"
  "''potionRowDetailsOpen'' \<in> fst ` set defaultState"
  "''prices'' \<in> fst ` set defaultState"
  "''feedbacks'' \<in> fst ` set defaultState"
  "''adminMode'' \<in> fst ` set defaultState"
  by (simp_all add: defaultState_def)

lemma absorbs_v1:
  assumes "absorbs defaultState s"
  shows "absorbs defaultState (migrate_v1 s)"
proof -
  obtain l where s: "s = JObj l" and dl: "distinct (map fst l)" and m: "merge_entries defaultState l = l"
    using assms by (rule absorbsE)
  let ?lit = "[(''p100'', JBool False), (''p300'', JBool False), (''p500'', JBool False), (''p700'', JBool False)]"
  let ?Y = "js_or (get_opt s ''potionRowDetailsOpen'') (JObj [])"
  have "merge_entries ?lit (spread_into ?lit ?Y) = spread_into ?lit ?Y"
    by (rule spread_absorb(1)) auto
  then have X: "merged_value (get_own defaultState ''potionRowDetailsOpen'') (JObj (spread_into ?lit ?Y))
      = JObj (spread_into ?lit ?Y)"
    by (simp add: merged_value_def defaultState_fields)
  have "absorbs defaultState (JObj (set_own l ''potionRowDetailsOpen'' (JObj (spread_into ?lit ?Y))))"
    using assms defaultState_distinct defaultState_keys(2) X unfolding s by (rule absorbs_set_own)
  then show ?thesis by (simp add: migrate_v1_def s with_prop_obj[OF dl])
qed

lemma absorbs_v2:
  assumes "absorbs defaultState s" and "migrate_v2 nts defaultState s = Some s'"
  shows "absorbs defaultState s'"
proof -
  obtain l where s: "s = JObj l" and dl: "distinct (map fst l)" and m: "merge_entries defaultState l = l"
    using assms(1) by (rule absorbsE)
  let ?P = "get_own defaultState ''prices''"
  obtain n where n: "normalize_prices nts [] (own_entries (js_or (get_opt s ''prices'') (JObj []))) = Some n"
    and s': "s' = with_prop s ''prices'' (deepMerge ?P (JObj n))"
    using assms(2) by (auto simp: migrate_v2_def Let_def split: option.splits)
  have kn: "keys_distinct (JObj n)"
    by (rule normalize_prices_keys_distinct[OF n]) simp
  have "deepMerge ?P (deepMerge ?P (JObj n)) = deepMerge ?P (JObj n)"
    by (rule deepMerge_idem[OF defaultState_fields(6) kn])
  then have X: "merged_value ?P (deepMerge ?P (JObj n)) = deepMerge ?P (JObj n)"
    by (simp add: merged_value_def)
  have "absorbs defaultState (JObj (set_own l ''prices'' (deepMerge ?P (JObj n))))"
    using assms(1) defaultState_distinct defaultState_keys(3) X unfolding s by (rule absorbs_set_own)
  then show ?thesis by (simp add: s' s with_prop_obj[OF dl])
qed

lemma absorbs_v3:
  assumes "absorbs defaultState s"
  shows "absorbs defaultState (migrate_v3 s)"
proof -
  obtain l where s: "s = JObj l" and dl: "distinct (map fst l)" and m: "merge_entries defaultState l = l"
    using assms by (rule absorbsE)
  let ?lit = "[(''nextId'', JNum (Fin 1)), (''items'', JArr [])]"
  let ?Y = "js_or (get_opt s ''feedbacks'') (JObj [])"
  have "merge_entries ?lit (spread_into ?lit ?Y) = spread_into ?lit ?Y"
    by (rule spread_absorb(1)) auto
  then have X: "merged_value (get_own defaultState ''feedbacks'') (JObj (spread_into ?lit ?Y))
      = JObj (spread_into ?lit ?Y)"
    by (simp add: merged_value_def defaultState_fields)
  have "absorbs defaultState (JObj (set_own l ''feedbacks'' (JObj (spread_into ?lit ?Y))))"
    using assms defaultState_distinct defaultState_keys(4) X unfolding s by (rule absorbs_set_own)
  then show ?thesis by (simp add: migrate_v3_def s with_prop_obj[OF dl])
qed

lemma absorbs_v4:
  assumes "absorbs defaultState s"
  shows "absorbs defaultState (migrate_v4 s)"
proof -
  obtain l where s: "s = JObj l" and dl: "distinct (map fst l)" and m: "merge_entries defaultState l = l"
    using assms by (rule absorbsE)
  have X: "merged_value (get_own defaultState ''adminMode'') (JBool False) = JBool False"
    by (simp add: merged_value_def)
  have "absorbs defaultState (JObj (set_own l ''adminMode'' (JBool False)))"
    using assms defaultState_distinct defaultState_keys(5) X unfolding s by (rule absorbs_set_own)
  then show ?thesis by (simp add: migrate_v4_def s with_prop_obj[OF dl])
qed

lemma absorbs_merge:
  assumes "keys_distinct incoming" and "isPlainObject incoming"
  shows "absorbs defaultState (deepMerge (JObj defaultState) incoming)"
proof -
  obtain inc where inc: "incoming = JObj inc" using assms(2) by (cases incoming) simp_all
  have "deepMerge (JObj defaultState) (deepMerge (JObj defaultState) incoming)
        = deepMerge (JObj defaultState) incoming"
    by (rule deepMerge_idem[OF defaultState_keys_distinct assms(1)])
  then show ?thesis
    by (simp add: inc distinct_merge_entries[OF defaultState_distinct])
qed

lemma migrate_first:
  assumes wf: "isPlainObject raw \<longrightarrow> keys_distinct raw"
    and res: "migrateState nts raw defaultState = Some m"
  shows "absorbs defaultState m \<and> get_opt m ''schemaVersion'' = JNum (Fin 4)"
proof -
  define incoming where "incoming = (if isPlainObject raw then raw else JObj [])"
  define ver where "ver = version_of (get_opt incoming ''schemaVersion'')"
  define s0 where "s0 = deepMerge (JObj defaultState) incoming"
  define s1 where "s1 = (if jlt ver (Fin 1) then migrate_v1 s0 else s0)"
  have "keys_distinct incoming" "isPlainObject incoming"
    using wf by (auto simp: incoming_def)
  then have a0: "absorbs defaultState s0" unfolding s0_def by (rule absorbs_merge)
  have a1: "absorbs defaultState s1" using a0 by (simp add: s1_def absorbs_v1)
  obtain s2 where s2: "(if jlt ver (Fin 2) then migrate_v2 nts defaultState s1 else Some s1) = Some s2"
    and m: "m = assign (let s3 = (if jlt ver (Fin 3) then migrate_v3 s2 else s2)
                       in if jlt ver (Fin 4) then migrate_v4 s3 else s3)
                  ''schemaVersion'' (get_own defaultState ''schemaVersion'')"
    using res unfolding migrateState_def incoming_def[symmetric] Let_def ver_def[symmetric]
      s0_def[symmetric] s1_def[symmetric]
    by (auto split: option.splits)
  have a2: "absorbs defaultState s2"
    using s2 a1 absorbs_v2 by (cases "jlt ver (Fin 2)") auto
  define s4 where "s4 = (let s3 = (if jlt ver (Fin 3) then migrate_v3 s2 else s2)
                       in if jlt ver (Fin 4) then migrate_v4 s3 else s3)"
  have a4: "absorbs defaultState s4"
    using a2 by (simp add: s4_def Let_def absorbs_v3 absorbs_v4)
  then obtain l where l: "s4 = JObj l" by (rule absorbsE)
  have X: "merged_value (get_own defaultState ''schemaVersion'') (JNum (Fin 4)) = JNum (Fin 4)"
    by (simp add: merged_value_def)
  have "absorbs defaultState (JObj (set_own l ''schemaVersion'' (JNum (Fin 4))))"
    using a4 defaultState_distinct defaultState_keys(1) X unfolding l by (rule absorbs_set_own)
  then show ?thesis
    using m by (simp add: s4_def[symmetric] l defaultState_fields get_own_set_own)
qed

lemma migrate_second:
  assumes "absorbs defaultState m" and "get_opt m ''schemaVersion'' = JNum (Fin 4)"
  shows "migrateState nts m defaultState = Some m"
proof -
  obtain l where m: "m = JObj l" and dl: "distinct (map fst l)" and me: "merge_entries defaultState l = l"
    using assms(1) by (rule absorbsE)
  have "map_of l ''schemaVersion'' = Some (JNum (Fin 4))"
    using assms(2) by (simp add: m get_own_def split: option.splits)
  then have "set_own l ''schemaVersion'' (JNum (Fin 4)) = l" by (rule set_own_same)
  then show ?thesis
    using assms(2) by (simp add: migrateState_def m me defaultState_fields)
qed

subsection \<open>The version and the fields of the migrated document\<close>










subsection \<open>When the migration returns\<close>

lemma no_toString_get_own: "no_toString (JObj l) \<Longrightarrow> no_toString (get_own l k)"
  by (auto simp: get_own_def list_all_iff split: option.splits dest!: map_of_SomeD)

lemma no_toString_get_opt: "no_toString v \<Longrightarrow> no_toString (get_opt v k)"
  by (cases v) (simp_all add: no_toString_get_own del: no_toString.simps(1))

lemma no_toString_set_own:
  "no_toString (JObj l) \<Longrightarrow> k \<noteq> ''toString'' \<Longrightarrow> no_toString X \<Longrightarrow> no_toString (JObj (set_own l k X))"
  using set_set_own[of l k X] by (fastforce simp: list_all_iff)

lemma no_toString_merge_entries:
  assumes "\<And>k v b. (k, v) \<in> set p \<Longrightarrow> no_toString b \<Longrightarrow> no_toString (deepMerge b v)"
    and "no_toString (JObj out)" and "no_toString (JObj p)"
  shows "no_toString (JObj (merge_entries out p))"
  using assms
proof (induction p arbitrary: out)
  case Nil
  then show ?case by simp
next
  case (Cons kv p)
  obtain k v where kv: "kv = (k, v)" by (cases kv)
  have k: "k \<noteq> ''toString''" and v: "no_toString v" and p: "no_toString (JObj p)"
    using Cons.prems(3) kv by auto
  have "no_toString (get_own out k)" by (rule no_toString_get_own[OF Cons.prems(2)])
  then have "no_toString (deepMerge (get_own out k) v)"
    using Cons.prems(1)[of k v] kv by simp
  then have X: "no_toString (merged_value (get_own out k) v)"
    using v by (simp add: merged_value_def)
  have out': "no_toString (JObj (set_own out k (merged_value (get_own out k) v)))"
    by (rule no_toString_set_own[OF Cons.prems(2) k X])
  show ?case
    unfolding kv merge_entries_step
  proof (rule Cons.IH[OF _ out' p])
    fix k' v' b assume "(k', v') \<in> set p" "no_toString b"
    then show "no_toString (deepMerge b v')" using Cons.prems(1)[of k' v' b] by simp
  qed
qed

lemma no_toString_deepMerge:
  "no_toString b \<Longrightarrow> no_toString p \<Longrightarrow> no_toString (deepMerge b p)"
proof (induction p arbitrary: b)
  case (JObj pl)
  show ?case
  proof (cases b)
    case (JObj bl)
    have "no_toString (JObj (merge_entries bl pl))"
    proof (rule no_toString_merge_entries)
      fix k v b' assume mem: "(k, v) \<in> set pl" and b': "no_toString b'"
      have "no_toString v" using JObj.prems(2) mem by (auto simp: list_all_iff)
      then show "no_toString (deepMerge b' v)"
        using JObj.IH[of "(k, v)" v b'] mem b' by simp
    next
      show "no_toString (JObj bl)" using JObj.prems(1) \<open>b = JObj bl\<close> by simp
      show "no_toString (JObj pl)" by (rule JObj.prems(2))
    qed
    then show ?thesis by (simp add: \<open>b = JObj bl\<close>)
  qed (use JObj.prems in simp_all)
qed (cases b; simp)+

lemma join_texts_total:
  "(\<And>x. x \<in> set xs \<Longrightarrow> js_String nts x \<noteq> None) \<Longrightarrow> join_texts nts xs \<noteq> None"
proof (induction xs)
  case Nil
  then show ?case by simp
next
  case (Cons a xs)
  have "js_String nts a \<noteq> None" using Cons.prems by simp
  moreover have "join_texts nts xs \<noteq> None" using Cons by simp
  ultimately show ?case by (auto split: option.splits)
qed

lemma js_String_total: "no_toString v \<Longrightarrow> js_String nts v \<noteq> None"
proof (induction v)
  case (JArr xs)
  have "join_texts nts xs \<noteq> None"
  proof (rule join_texts_total)
    fix x assume "x \<in> set xs"
    then show "js_String nts x \<noteq> None" using JArr by (auto simp: list_all_iff)
  qed
  then show ?case by simp
qed simp_all

lemma normalize_prices_total:
  "list_all (\<lambda>kv. no_toString (snd kv)) es \<Longrightarrow> normalize_prices nts acc es \<noteq> None"
proof (induction es arbitrary: acc)
  case Nil
  then show ?case by simp
next
  case (Cons kv es)
  obtain k v where kv: "kv = (k, v)" by (cases kv)
  have v: "no_toString v" and es: "list_all (\<lambda>kv. no_toString (snd kv)) es"
    using Cons.prems kv by simp_all
  have nz: "no_toString (nullish a b)" if "no_toString a" "no_toString b" for a b
    using that by (cases a) simp_all
  have 1: "js_String nts (nullish v (JStr [])) \<noteq> None"
    by (rule js_String_total) (simp add: nz v)
  have 2: "js_String nts (nullish (nullish (nullish (nullish (get_opt v ''market'') (get_opt v ''grossSell''))
             (get_opt v ''buy'')) (JNum (Fin 0))) (JStr [])) \<noteq> None"
    by (rule js_String_total) (simp add: nz no_toString_get_opt[OF v])
  show ?case
    using 1 2 Cons.IH[OF es] by (auto simp: kv Let_def split: option.splits)
qed

lemma no_toString_own_entries:
  "no_toString v \<Longrightarrow> list_all (\<lambda>kv. no_toString (snd kv)) (own_entries v)"
  by (cases v) (auto simp: list_all_iff dest!: set_zip_rightD)

lemma migrate_v2_total:
  assumes "no_toString (get_opt s ''prices'')"
  shows "migrate_v2 nts d s \<noteq> None"
proof -
  have "no_toString (js_or (get_opt s ''prices'') (JObj []))"
    using assms by (simp add: js_or_def)
  then have "normalize_prices nts [] (own_entries (js_or (get_opt s ''prices'') (JObj []))) \<noteq> None"
    by (intro normalize_prices_total no_toString_own_entries)
  then show ?thesis by (auto simp: migrate_v2_def Let_def split: option.splits)
qed

lemma migrate_total:
  assumes d: "distinct (map fst d)" and nd: "no_toString (JObj d)" and nr: "no_toString raw"
  shows "migrateState nts raw d \<noteq> None"
proof -
  define incoming where "incoming = (if isPlainObject raw then raw else JObj [])"
  define ver where "ver = version_of (get_opt incoming ''schemaVersion'')"
  define s0 where "s0 = deepMerge (JObj d) incoming"
  define s1 where "s1 = (if jlt ver (Fin 1) then migrate_v1 s0 else s0)"
  obtain inc where inc: "incoming = JObj inc"
    by (cases raw) (auto simp: incoming_def)
  have n0: "no_toString s0"
    unfolding s0_def by (rule no_toString_deepMerge[OF nd]) (use nr in \<open>simp add: incoming_def\<close>)
  have dl: "distinct (map fst (merge_entries d inc))"
    using d by (rule distinct_merge_entries)
  have "get_opt s1 ''prices'' = get_opt s0 ''prices''"
    by (simp add: s1_def s0_def inc migrate_v1_def with_prop_obj[OF dl] get_own_set_own)
  then have "no_toString (get_opt s1 ''prices'')"
    using no_toString_get_opt[OF n0] by simp
  then have "migrate_v2 nts d s1 \<noteq> None" by (rule migrate_v2_total)
  then show ?thesis
    unfolding migrateState_def incoming_def[symmetric] Let_def ver_def[symmetric]
      s0_def[symmetric] s1_def[symmetric]
    by (auto split: option.splits)
qed

subsection \<open>The fields of the default document at every depth\<close>




lemma fields_kept_not_plain:
  "\<not> isPlainObject v \<Longrightarrow> fields_kept dv v v"
  by (cases dv; cases v) simp_all



















subsection \<open>Idempotence and the schema of the result\<close>

text \<open>
  C5. Migration is idempotent: for the default document of the application and every
  raw input, be it an object (the keys of each of its objects distinct) or any other
  value such as \<^verbatim>\<open>null\<close> or \<^verbatim>\<open>undefined\<close>, when migrating the raw input returns a
  document \<open>m\<close>, migrating \<open>m\<close> returns \<open>m\<close> again, the same properties with the same
  values in the same order; and migrating the raw input does return a document
  whenever no object inside it has a property named \<^verbatim>\<open>toString\<close>.
\<close>

theorem migrateState_idempotent:
  assumes "isPlainObject raw \<longrightarrow> keys_distinct raw"
  shows "(\<forall>m. migrateState numToString raw defaultState = Some m \<longrightarrow>
            migrateState numToString m defaultState = Some m) \<and>
         (no_toString raw \<longrightarrow> migrateState numToString raw defaultState \<noteq> None)"
proof -
  have "no_toString (JObj defaultState)" by (simp add: defaultState_def)
  then show ?thesis
    using migrate_first[OF assms] migrate_second
      migrate_total[OF defaultState_distinct, of raw numToString]
    by blast
qed


subsection \<open>Instances\<close>

theorem migrateState_idempotent_witness:
  "keys_distinct legacy_document \<and> no_toString legacy_document \<and>
   (\<exists>m. migrateState numToString_none legacy_document defaultState = Some m \<and>
        get_path m [''prices'', ''coal'', ''market''] = JStr ''12'' \<and>
        migrateState numToString_none m defaultState = Some m)"
proof -
  have k: "keys_distinct legacy_document" and n: "no_toString legacy_document"
    by (simp_all add: legacy_document_def)
  from k have wf: "isPlainObject legacy_document \<longrightarrow> keys_distinct legacy_document"
    by simp
  note inst = migrateState_idempotent[OF wf, of numToString_none]
  from inst n obtain m where
    m: "migrateState numToString_none legacy_document defaultState = Some m" by auto
  from inst m have again: "migrateState numToString_none m defaultState = Some m" by blast
  have "result_path (migrateState numToString_none legacy_document defaultState)
          [''prices'', ''coal'', ''market''] = Some (JStr ''12'')"
    by code_simp
  then have p: "get_path m [''prices'', ''coal'', ''market''] = JStr ''12''"
    by (simp add: m)
  show ?thesis using k n m p again by blast
qed



end
